theory Spec2Isabelle
  imports Complex_Main "HOL-Library.Sublist"
begin

section \<open>The inference script of LatentSync, as a program over an explicit world\<close>

text \<open>
  The development embeds \<^verbatim>\<open>scripts/inference.py\<close>. The script is glue code: it
  prints, calls into torch, diffusers and latentsync, touches the file system with
  \<^verbatim>\<open>os.path.exists\<close> and \<^verbatim>\<open>os.makedirs\<close>, and starts external programs with
  \<^verbatim>\<open>subprocess.run\<close> and \<^verbatim>\<open>subprocess.check_call\<close>. Each of these is an event of a
  trace; what the outside world answers (whether a library call raises, what exit code
  and standard error a process gives, what it does to the file system) is read from an
  environment record, so that a statement about every environment is a statement about
  every behaviour of the libraries and programs the script drives.
\<close>

subsection \<open>Data of the script\<close>

datatype dtype = Float16 | Float32

text \<open>A Python float: the finite doubles are rationals.\<close>

datatype py_float = Finite rat | PosInf | NegInf | NaN

text \<open>
  The fields of the configuration the script reads: \<^verbatim>\<open>config.model.cross_attention_dim\<close>,
  \<^verbatim>\<open>config.data.num_frames\<close> and \<^verbatim>\<open>config.data.resolution\<close>. They are taken to be
  YAML integers.
\<close>

record model_config =
  cross_attention_dim :: int

record data_config =
  num_frames :: int
  resolution :: int

record config =
  model :: model_config
  data :: data_config

text \<open>The namespace \<^verbatim>\<open>args\<close> that \<^verbatim>\<open>parse_args\<close> returns.\<close>

record args =
  unet_config_path :: string
  inference_ckpt_path :: string
  video_path :: string
  audio_path :: string
  video_out_path :: string
  inference_steps :: int
  guidance_scale :: py_float
  seed :: int

text \<open>The keyword arguments of the pipeline invocation (lines 106 to 117).\<close>

record pipeline_kwargs =
  kw_video_path :: string
  kw_audio_path :: string
  kw_video_out_path :: string
  video_mask_path :: string
  kw_num_frames :: int
  num_inference_steps :: int
  kw_guidance_scale :: py_float
  weight_dtype :: dtype
  width :: int
  height :: int

text \<open>The calls into third-party libraries, each with the arguments the script passes.\<close>

datatype lib_call =
    DDIMScheduler_from_pretrained string
  | Audio2Feature string string int
  | AutoencoderKL_from_pretrained string dtype
  | UNet3DConditionModel_from_pretrained model_config string string
  | Unet_to dtype
  | Enable_xformers_memory_efficient_attention
  | LipsyncPipeline_init
  | LipsyncPipeline_to string
  | Set_seed int
  | Torch_seed
  | Pipeline_call pipeline_kwargs
  | OmegaConf_load string

datatype event =
    Print string
  | Call lib_call
  | Import string
  | Makedirs string
  | Run "string list"
  | Exit "string list" int

datatype exn =
    NotImplementedError string
  | FileExistsError string
  | OSError string
  | CalledProcessError int "string list"
  | UnicodeDecodeError
  | SpawnError "string list"
  | LibraryError lib_call
  | ConfigLoadError string
  | ImportRaised string
  | SystemExit int

subsection \<open>The world: file system and environment\<close>

text \<open>
  What is at a path: nothing, a file, a directory, or a symbolic link with the path it
  leads to.
\<close>

datatype node = File | Dir | Symlink string

type_synonym fs = "string \<rightharpoonup> node"

text \<open>What a finished process leaves in a \<^verbatim>\<open>CompletedProcess\<close>: standard error is bytes.\<close>

record completed =
  returncode :: int
  stderr :: string

text \<open>
  What acts on the file system from outside the script: a library call, a process, and
  whatever other programs have done by the time \<^verbatim>\<open>os.makedirs\<close> acts on a path, which
  is after the test that precedes it.
\<close>

datatype action = Lib lib_call | Proc "string list" | Mkdir string

text \<open>
  What \<^verbatim>\<open>import gfpgan\<close> does: it succeeds, raises \<^verbatim>\<open>ImportError\<close> (which the
  script catches), or raises something else (which it does not).
\<close>

datatype import_result = Imported | Raises_ImportError | Raises_other

record env =
  cuda_is_available :: bool
  cuda_device_capability :: "int \<times> int"
  is_xformers_available :: bool
  torch_initial_seed :: int
  import_gfpgan :: import_result
  sys_executable :: string
  lib_raises :: "lib_call \<Rightarrow> bool"
  proc_result :: "string list \<Rightarrow> completed option"
  fs_effect :: "action \<Rightarrow> fs \<Rightarrow> fs"
  max_symlinks :: nat
  makedirs_refused :: "string \<Rightarrow> bool"
  omegaconf_load :: "string \<Rightarrow> config option"
  int_of_str :: "string \<Rightarrow> int option"
  float_of_str :: "string \<Rightarrow> py_float option"

subsection \<open>Programs: exceptions, a trace and the file system\<close>

type_synonym 'a prog = "fs \<Rightarrow> (exn + 'a) \<times> event list \<times> fs"

definition succeed :: "'a \<Rightarrow> 'a prog" where
  "succeed x = (\<lambda>s. (Inr x, [], s))"

definition raise :: "exn \<Rightarrow> 'a prog" where
  "raise e = (\<lambda>s. (Inl e, [], s))"

definition emit :: "event \<Rightarrow> unit prog" where
  "emit ev = (\<lambda>s. (Inr (), [ev], s))"

definition bind_p :: "'a prog \<Rightarrow> ('a \<Rightarrow> 'b prog) \<Rightarrow> 'b prog" where
  "bind_p m f = (\<lambda>s.
     case m s of
       (Inl e, t, s') \<Rightarrow> (Inl e, t, s')
     | (Inr x, t, s') \<Rightarrow> (case f x s' of (r, t', s'') \<Rightarrow> (r, t @ t', s'')))"

fun seq :: "unit prog list \<Rightarrow> unit prog" where
  "seq [] = succeed ()"
| "seq (m # ms) = bind_p m (\<lambda>_. seq ms)"

definition outcome :: "(exn + 'a) \<times> event list \<times> fs \<Rightarrow> exn + 'a" where
  "outcome r = fst r"

definition events :: "(exn + 'a) \<times> event list \<times> fs \<Rightarrow> event list" where
  "events r = fst (snd r)"

definition final_fs :: "(exn + 'a) \<times> event list \<times> fs \<Rightarrow> fs" where
  "final_fs r = snd (snd r)"

subsection \<open>Python and operating-system primitives\<close>

definition print :: "string \<Rightarrow> unit prog" where
  "print s = emit (Print s)"

text \<open>
  A library call is recorded, has whatever effect on the file system the environment
  gives it, and raises when the environment says so.
\<close>

definition lib :: "env \<Rightarrow> lib_call \<Rightarrow> unit prog" where
  "lib e c = (\<lambda>s.
     (if lib_raises e c then Inl (LibraryError c) else Inr (), [Call c], fs_effect e (Lib c) s))"

text \<open>
  \<^verbatim>\<open>os.path.exists(p)\<close> asks \<^verbatim>\<open>os.stat(p)\<close>, which follows symbolic links, and
  answers \<^verbatim>\<open>False\<close> when that fails: nothing is at the path, a link leads nowhere, or
  there are more links in a row than the system follows (\<open>max_symlinks\<close>, 40 on Linux).
\<close>

fun follow :: "nat \<Rightarrow> fs \<Rightarrow> string \<Rightarrow> node option" where
  "follow 0 s p = (case s p of Some (Symlink t) \<Rightarrow> None | found \<Rightarrow> found)"
| "follow (Suc k) s p = (case s p of Some (Symlink t) \<Rightarrow> follow k s t | found \<Rightarrow> found)"

definition path_exists :: "env \<Rightarrow> fs \<Rightarrow> string \<Rightarrow> bool" where
  "path_exists e s p = (follow (max_symlinks e) s p \<noteq> None)"

definition os_path_exists :: "env \<Rightarrow> string \<Rightarrow> bool prog" where
  "os_path_exists e p = (\<lambda>s. (Inr (path_exists e s p), [], s))"

text \<open>
  \<^verbatim>\<open>os.makedirs(p)\<close> without \<^verbatim>\<open>exist_ok\<close>, for a name in the working directory: one
  \<^verbatim>\<open>mkdir\<close>. It raises \<^verbatim>\<open>FileExistsError\<close> when anything is at the path, be it a link
  that leads nowhere, and another \<^verbatim>\<open>OSError\<close> when the system refuses (no permission, a
  read-only or full file system). It acts on the file system as other programs have
  left it by then. The event \<open>Makedirs p\<close> records that the directory was made.
\<close>

definition os_makedirs :: "env \<Rightarrow> string \<Rightarrow> unit prog" where
  "os_makedirs e p = (\<lambda>s.
     let s' = fs_effect e (Mkdir p) s in
     if s' p \<noteq> None then (Inl (FileExistsError p), [], s')
     else if makedirs_refused e p then (Inl (OSError p), [], s')
     else (Inr (), [Makedirs p], s'(p \<mapsto> Dir)))"

text \<open>\<^verbatim>\<open>os.path.join\<close> of two components, on POSIX.\<close>

definition os_path_join :: "string \<Rightarrow> string \<Rightarrow> string" where
  "os_path_join a b =
     (if b \<noteq> [] \<and> hd b = CHR ''/'' then b
      else if a = [] \<or> last a = CHR ''/'' then a @ b
      else a @ ''/'' @ b)"

text \<open>
  \<^verbatim>\<open>subprocess.run(cmd, stdout=PIPE, stderr=PIPE)\<close> starts the program and waits
  for it: the call returns only with the exit code. A program that cannot be started
  makes the call raise.
\<close>

definition subprocess_run :: "env \<Rightarrow> string list \<Rightarrow> completed prog" where
  "subprocess_run e cmd = (\<lambda>s.
     case proc_result e cmd of
       None \<Rightarrow> (Inl (SpawnError cmd), [Run cmd], s)
     | Some r \<Rightarrow> (Inr r, [Run cmd, Exit cmd (returncode r)], fs_effect e (Proc cmd) s))"

text \<open>\<^verbatim>\<open>subprocess.check_call(cmd)\<close> waits as well, and raises on a non-zero exit code.\<close>

definition subprocess_check_call :: "env \<Rightarrow> string list \<Rightarrow> unit prog" where
  "subprocess_check_call e cmd = (\<lambda>s.
     case proc_result e cmd of
       None \<Rightarrow> (Inl (SpawnError cmd), [Run cmd], s)
     | Some r \<Rightarrow>
         (if returncode r = 0 then Inr () else Inl (CalledProcessError (returncode r) cmd),
          [Run cmd, Exit cmd (returncode r)], fs_effect e (Proc cmd) s))"

text \<open>
  \<^verbatim>\<open>bytes.decode("utf-8")\<close> is strict: it raises on a byte sequence that is not
  well-formed UTF-8 (an overlong form, a surrogate, a code point above U+10FFFF, a
  stray or missing continuation byte). A Python string is kept as its UTF-8 bytes, so
  decoding well-formed bytes returns them.
\<close>

definition cont_byte :: "nat \<Rightarrow> bool" where
  "cont_byte b = (128 \<le> b \<and> b \<le> 191)"

fun utf8_ok :: "nat list \<Rightarrow> bool" where
  "utf8_ok [] = True"
| "utf8_ok [b0] = (b0 < 128)"
| "utf8_ok [b0, b1] =
     (if b0 < 128 then utf8_ok [b1]
      else 194 \<le> b0 \<and> b0 \<le> 223 \<and> cont_byte b1)"
| "utf8_ok [b0, b1, b2] =
     (if b0 < 128 then utf8_ok [b1, b2]
      else if 194 \<le> b0 \<and> b0 \<le> 223 then cont_byte b1 \<and> utf8_ok [b2]
      else if b0 = 224 then 160 \<le> b1 \<and> b1 \<le> 191 \<and> cont_byte b2
      else if b0 = 237 then 128 \<le> b1 \<and> b1 \<le> 159 \<and> cont_byte b2
      else 225 \<le> b0 \<and> b0 \<le> 239 \<and> cont_byte b1 \<and> cont_byte b2)"
| "utf8_ok (b0 # b1 # b2 # b3 # bs) =
     (if b0 < 128 then utf8_ok (b1 # b2 # b3 # bs)
      else if 194 \<le> b0 \<and> b0 \<le> 223 then cont_byte b1 \<and> utf8_ok (b2 # b3 # bs)
      else if b0 = 224 then 160 \<le> b1 \<and> b1 \<le> 191 \<and> cont_byte b2 \<and> utf8_ok (b3 # bs)
      else if b0 = 237 then 128 \<le> b1 \<and> b1 \<le> 159 \<and> cont_byte b2 \<and> utf8_ok (b3 # bs)
      else if 225 \<le> b0 \<and> b0 \<le> 239 then cont_byte b1 \<and> cont_byte b2 \<and> utf8_ok (b3 # bs)
      else if b0 = 240 then
        144 \<le> b1 \<and> b1 \<le> 191 \<and> cont_byte b2 \<and> cont_byte b3 \<and> utf8_ok bs
      else if b0 = 244 then
        128 \<le> b1 \<and> b1 \<le> 143 \<and> cont_byte b2 \<and> cont_byte b3 \<and> utf8_ok bs
      else 241 \<le> b0 \<and> b0 \<le> 243 \<and> cont_byte b1 \<and> cont_byte b2 \<and> cont_byte b3 \<and> utf8_ok bs)"

definition decode_utf8 :: "string \<Rightarrow> string prog" where
  "decode_utf8 bs =
     (if utf8_ok (map of_char bs) then succeed bs else raise UnicodeDecodeError)"

text \<open>\<^verbatim>\<open>str.replace(old, new)\<close>: every occurrence, left to right, without overlap.\<close>

function str_replace :: "string \<Rightarrow> string \<Rightarrow> string \<Rightarrow> string" where
  "str_replace old new [] = (if old = [] then new else [])"
| "str_replace old new (c # cs) =
     (if old = [] then new @ c # str_replace old new cs
      else if take (length old) (c # cs) = old
        then new @ str_replace old new (drop (length old) (c # cs))
      else c # str_replace old new cs)"
  by pat_completeness auto
termination
  by (relation "measure (\<lambda>(old, new, s). length s)") auto

text \<open>The decimal form of an integer, as an f-string prints it.\<close>

function str_nat :: "nat \<Rightarrow> string" where
  "str_nat n =
     (if n < 10 then [''0123456789'' ! n]
      else str_nat (n div 10) @ [''0123456789'' ! (n mod 10)])"
  by pat_completeness auto
termination
  by (relation "measure id") auto

definition str_int :: "int \<Rightarrow> string" where
  "str_int i = (if i < 0 then ''-'' @ str_nat (nat (- i)) else str_nat (nat i))"

subsection \<open>Dependency bootstrap (lines 30 to 45)\<close>

definition install_package :: "env \<Rightarrow> string \<Rightarrow> unit prog" where
  "install_package e package_name =
     subprocess_check_call e [sys_executable e, ''-m'', ''pip'', ''install'', package_name]"

definition git_clone_command :: "string list" where
  "git_clone_command = [''git'', ''clone'', ''https://github.com/sczhou/CodeFormer.git'']"

definition pip_requirements_command :: "env \<Rightarrow> string list" where
  "pip_requirements_command e =
     [sys_executable e, ''-m'', ''pip'', ''install'', ''-r'', ''CodeFormer/requirements.txt'']"

text \<open>
  The statements the module runs when it is loaded: \<^verbatim>\<open>import gfpgan\<close> under
  \<^verbatim>\<open>except ImportError\<close>, then the test for the \<^verbatim>\<open>CodeFormer\<close> directory.
\<close>

definition bootstrap :: "env \<Rightarrow> unit prog" where
  "bootstrap e =
     seq [
       emit (Import ''gfpgan''),
       (case import_gfpgan e of
          Imported \<Rightarrow> succeed ()
        | Raises_ImportError \<Rightarrow>
            seq [print ''GFPGAN not found. Installing...'', install_package e ''gfpgan'']
        | Raises_other \<Rightarrow> raise (ImportRaised ''gfpgan'')),
       bind_p (os_path_exists e ''CodeFormer'') (\<lambda>found.
         if \<not> found then
           seq [print ''CodeFormer repository not found. Cloning...'',
                subprocess_check_call e git_clone_command,
                print ''Installing CodeFormer dependencies...'',
                subprocess_check_call e (pip_requirements_command e)]
         else succeed ())]"

subsection \<open>\<^verbatim>\<open>main\<close>: model construction and the pipeline call (lines 57 to 117)\<close>

text \<open>
  \<^verbatim>\<open>main\<close> is one function of some 150 lines; it is embedded as its two halves in
  sequence, the second as its four stages, each statement in the order of the source.
  Assignments to attributes of library objects (\<^verbatim>\<open>vae.config.scaling_factor\<close>,
  \<^verbatim>\<open>vae.config.shift_factor\<close>) and the conversion of \<^verbatim>\<open>config.model\<close> to a
  container leave no event. The \<^verbatim>\<open>and\<close> of line 58 reads the device capability only
  when CUDA is available; both are values of the environment, so the order does not show.
\<close>

definition main_inference :: "env \<Rightarrow> config \<Rightarrow> args \<Rightarrow> unit prog" where
  "main_inference e config args =
     (let is_fp16_supported = (cuda_is_available e \<and> fst (cuda_device_capability e) > 7);
          dtype = (if is_fp16_supported then Float16 else Float32)
      in
      bind_p
        (seq [print (''Input video path: '' @ video_path args),
              print (''Input audio path: '' @ audio_path args),
              print (''Loaded checkpoint path: '' @ inference_ckpt_path args),
              lib e (DDIMScheduler_from_pretrained ''configs'')]) (\<lambda>_.
      bind_p
        (if cross_attention_dim (model config) = 768 then
           succeed ''checkpoints/whisper/small.pt''
         else if cross_attention_dim (model config) = 384 then
           succeed ''checkpoints/whisper/tiny.pt''
         else raise (NotImplementedError ''cross_attention_dim must be 768 or 384''))
        (\<lambda>whisper_model_path.
      seq [lib e (Audio2Feature whisper_model_path ''cuda'' (num_frames (data config))),
           lib e (AutoencoderKL_from_pretrained ''stabilityai/sd-vae-ft-mse'' dtype),
           lib e (UNet3DConditionModel_from_pretrained (model config)
                    (inference_ckpt_path args) ''cpu''),
           lib e (Unet_to dtype),
           (if is_xformers_available e then lib e Enable_xformers_memory_efficient_attention
            else succeed ()),
           lib e LipsyncPipeline_init,
           lib e (LipsyncPipeline_to ''cuda''),
           (if seed args \<noteq> - 1 then lib e (Set_seed (seed args)) else lib e Torch_seed),
           print (''Initial seed: '' @ str_int (torch_initial_seed e)),
           lib e (Pipeline_call \<lparr>
             kw_video_path = video_path args,
             kw_audio_path = audio_path args,
             kw_video_out_path = video_out_path args,
             video_mask_path = str_replace ''.mp4'' ''_mask.mp4'' (video_out_path args),
             kw_num_frames = num_frames (data config),
             num_inference_steps = inference_steps args,
             kw_guidance_scale = guidance_scale args,
             weight_dtype = dtype,
             width = resolution (data config),
             height = resolution (data config)\<rparr>)])))"

subsection \<open>\<^verbatim>\<open>main\<close>: the post-processing chain (lines 120 to 202)\<close>

definition frames_dir :: string where
  "frames_dir = ''temp_frames''"

definition enhanced_frames_dir :: string where
  "enhanced_frames_dir = ''enhanced_frames''"

definition final_frames_dir :: string where
  "final_frames_dir = ''final_frames''"

definition final_video_path :: string where
  "final_video_path = ''final_video.mp4''"

text \<open>The four command lines. The script names the first and the last \<^verbatim>\<open>ffmpeg_command\<close>.\<close>

definition ffmpeg_command :: "args \<Rightarrow> string list" where
  "ffmpeg_command args =
     [''ffmpeg'', ''-i'', video_out_path args, os_path_join frames_dir ''frame_%04d.png'']"

definition gfpgan_command :: "string list" where
  "gfpgan_command =
     [''python'', ''-m'', ''gfpgan'', ''--input-path'', frames_dir,
      ''--output-path'', enhanced_frames_dir, ''--version'', ''1.3'']"

definition codeformer_command :: "string list" where
  "codeformer_command =
     [''python'', ''CodeFormer/inference_codeformer.py'', ''--input_path'', enhanced_frames_dir,
      ''--output_path'', final_frames_dir, ''--face_upsample'']"

definition ffmpeg_command2 :: "string list" where
  "ffmpeg_command2 =
     [''ffmpeg'', ''-r'', ''25'', ''-i'', os_path_join final_frames_dir ''frame_%04d.png'',
      ''-vcodec'', ''libx264'', ''-crf'', ''18'', ''-pix_fmt'', ''yuv420p'', final_video_path]"

text \<open>\<^verbatim>\<open>if not os.path.exists(d): os.makedirs(d)\<close>\<close>

definition ensure_dir :: "env \<Rightarrow> string \<Rightarrow> unit prog" where
  "ensure_dir e d = bind_p (os_path_exists e d) (\<lambda>found.
     if \<not> found then os_makedirs e d else succeed ())"

text \<open>
  The test of the return code that follows each \<^verbatim>\<open>subprocess.run\<close>: a success line,
  or an error line and then \<^verbatim>\<open>print(result.stderr.decode("utf-8"))\<close>.
\<close>

definition report :: "completed \<Rightarrow> string \<Rightarrow> string \<Rightarrow> unit prog" where
  "report result ok_line error_line =
     (if returncode result = 0 then print ok_line
      else seq [print error_line, bind_p (decode_utf8 (stderr result)) print])"

text \<open>The apostrophe of the f-strings that quote a directory name.\<close>

definition apostrophe :: string where
  "apostrophe = [CHR 0x27]"

definition extract_frames :: "env \<Rightarrow> args \<Rightarrow> unit prog" where
  "extract_frames e args =
     seq [ensure_dir e frames_dir,
          print ''Extracting frames from the generated video...'',
          bind_p (subprocess_run e (ffmpeg_command args)) (\<lambda>result.
            report result
              (''Frames successfully extracted to '' @ apostrophe @ frames_dir @ apostrophe
                 @ '' folder.'')
              ''Error during frame extraction:'')]"

definition enhance_gfpgan :: "env \<Rightarrow> unit prog" where
  "enhance_gfpgan e =
     seq [ensure_dir e enhanced_frames_dir,
          print ''Enhancing frames with GFPGAN...'',
          bind_p (subprocess_run e gfpgan_command) (\<lambda>result.
            report result
              (''Frames successfully enhanced by GFPGAN and stored in '' @ apostrophe
                 @ enhanced_frames_dir @ apostrophe @ ''.'')
              ''Error during GFPGAN enhancement:'')]"

definition refine_codeformer :: "env \<Rightarrow> unit prog" where
  "refine_codeformer e =
     seq [ensure_dir e final_frames_dir,
          print ''Refining frames with CodeFormer...'',
          bind_p (subprocess_run e codeformer_command) (\<lambda>result.
            report result
              (''Frames successfully refined by CodeFormer and stored in '' @ apostrophe
                 @ final_frames_dir @ apostrophe @ ''.'')
              ''Error during CodeFormer enhancement:'')]"

definition reassemble :: "env \<Rightarrow> unit prog" where
  "reassemble e =
     seq [print ''Reassembling final frames into a video...'',
          bind_p (subprocess_run e ffmpeg_command2) (\<lambda>result.
            report result
              (''Final video successfully created: '' @ final_video_path)
              ''Error during video assembly:'')]"

definition main_postprocess :: "env \<Rightarrow> args \<Rightarrow> unit prog" where
  "main_postprocess e args =
     seq [extract_frames e args, enhance_gfpgan e, refine_codeformer e, reassemble e]"

definition main :: "env \<Rightarrow> config \<Rightarrow> args \<Rightarrow> unit prog" where
  "main e config args = seq [main_inference e config args, main_postprocess e args]"

subsection \<open>The command line (lines 209 to 223)\<close>

text \<open>
  The parser is the table the eight \<^verbatim>\<open>add_argument\<close> calls build. The command line
  is taken after argparse has scanned it: each occurrence of an option, under the
  option's full name, with the string that follows it. What \<^verbatim>\<open>int\<close> and
  \<^verbatim>\<open>float\<close> make of a string is the environment's. The help option argparse adds
  by itself is left out.
\<close>

datatype arg_type = Type_str | Type_int | Type_float

datatype arg_value = S string | I int | F py_float

record argument =
  option_string :: string
  arg_type :: arg_type
  arg_required :: bool
  arg_default :: "arg_value option"

definition parser :: "argument list" where
  "parser =
     [\<lparr>option_string = ''--unet_config_path'', arg_type = Type_str, arg_required = False,
        arg_default = Some (S ''configs/unet.yaml'')\<rparr>,
      \<lparr>option_string = ''--inference_ckpt_path'', arg_type = Type_str, arg_required = True,
        arg_default = None\<rparr>,
      \<lparr>option_string = ''--video_path'', arg_type = Type_str, arg_required = True,
        arg_default = None\<rparr>,
      \<lparr>option_string = ''--audio_path'', arg_type = Type_str, arg_required = True,
        arg_default = None\<rparr>,
      \<lparr>option_string = ''--video_out_path'', arg_type = Type_str, arg_required = True,
        arg_default = None\<rparr>,
      \<lparr>option_string = ''--inference_steps'', arg_type = Type_int, arg_required = False,
        arg_default = Some (I 20)\<rparr>,
      \<lparr>option_string = ''--guidance_scale'', arg_type = Type_float, arg_required = False,
        arg_default = Some (F (Finite 1))\<rparr>,
      \<lparr>option_string = ''--seed'', arg_type = Type_int, arg_required = False,
        arg_default = Some (I 1247)\<rparr>]"

datatype parse_error =
    Invalid_value string string
  | Missing_required "string list"
  | Unrecognized "string list"

type_synonym namespace = "string \<rightharpoonup> arg_value"

text \<open>The attribute an option is stored under: its name without the leading dashes.\<close>

definition dest :: "string \<Rightarrow> string" where
  "dest opt =
     map (\<lambda>c. if c = CHR ''-'' then CHR ''_'' else c) (dropWhile (\<lambda>c. c = CHR ''-'') opt)"

definition convert :: "env \<Rightarrow> arg_type \<Rightarrow> string \<Rightarrow> arg_value option" where
  "convert e t raw =
     (case t of
        Type_str \<Rightarrow> Some (S raw)
      | Type_int \<Rightarrow> map_option I (int_of_str e raw)
      | Type_float \<Rightarrow> map_option F (float_of_str e raw))"

text \<open>Every attribute starts at its default (Python's \<^verbatim>\<open>None\<close> where none is given).\<close>

definition defaults :: namespace where
  "defaults = (\<lambda>d.
     case find (\<lambda>a. dest (option_string a) = d) parser of
       None \<Rightarrow> None
     | Some a \<Rightarrow> arg_default a)"

text \<open>
  The options are stored in the order given, a later occurrence over an earlier one. A
  value its type refuses ends the parse at once; an option the parser does not know is
  set aside with its string.
\<close>

fun consume ::
  "env \<Rightarrow> (string \<times> string) list \<Rightarrow> namespace \<Rightarrow> string list
     \<Rightarrow> parse_error + namespace \<times> string list" where
  "consume e [] ns extras = Inr (ns, extras)"
| "consume e ((opt, raw) # rest) ns extras =
     (case find (\<lambda>a. option_string a = opt) parser of
        None \<Rightarrow> consume e rest ns (extras @ [opt, raw])
      | Some a \<Rightarrow>
          (case convert e (arg_type a) raw of
             None \<Rightarrow> Inl (Invalid_value opt raw)
           | Some v \<Rightarrow> consume e rest (ns(dest opt \<mapsto> v)) extras))"

text \<open>
  After the scan argparse reports the required options it has not seen, and then the
  strings it could not place.
\<close>

definition parse_args :: "env \<Rightarrow> (string \<times> string) list \<Rightarrow> parse_error + namespace" where
  "parse_args e argv =
     (case consume e argv defaults [] of
        Inl err \<Rightarrow> Inl err
      | Inr (ns, extras) \<Rightarrow>
          (let missing =
                 map option_string
                   (filter (\<lambda>a. arg_required a \<and> option_string a \<notin> set (map fst argv)) parser)
           in if missing \<noteq> [] then Inl (Missing_required missing)
              else if extras \<noteq> [] then Inl (Unrecognized extras)
              else Inr ns))"

definition get_str :: "namespace \<Rightarrow> string \<Rightarrow> string option" where
  "get_str ns d = (case ns d of Some (S s) \<Rightarrow> Some s | _ \<Rightarrow> None)"

definition get_int :: "namespace \<Rightarrow> string \<Rightarrow> int option" where
  "get_int ns d = (case ns d of Some (I i) \<Rightarrow> Some i | _ \<Rightarrow> None)"

definition get_float :: "namespace \<Rightarrow> string \<Rightarrow> py_float option" where
  "get_float ns d = (case ns d of Some (F x) \<Rightarrow> Some x | _ \<Rightarrow> None)"

text \<open>The namespace read as the attributes \<^verbatim>\<open>main\<close> uses.\<close>

definition args_of :: "namespace \<Rightarrow> args option" where
  "args_of ns =
     Option.bind (get_str ns ''unet_config_path'') (\<lambda>a1.
     Option.bind (get_str ns ''inference_ckpt_path'') (\<lambda>a2.
     Option.bind (get_str ns ''video_path'') (\<lambda>a3.
     Option.bind (get_str ns ''audio_path'') (\<lambda>a4.
     Option.bind (get_str ns ''video_out_path'') (\<lambda>a5.
     Option.bind (get_int ns ''inference_steps'') (\<lambda>a6.
     Option.bind (get_float ns ''guidance_scale'') (\<lambda>a7.
     Option.bind (get_int ns ''seed'') (\<lambda>a8.
       Some \<lparr>unet_config_path = a1, inference_ckpt_path = a2, video_path = a3,
             audio_path = a4, video_out_path = a5, inference_steps = a6,
             guidance_scale = a7, seed = a8\<rparr>))))))))"

definition load_config :: "env \<Rightarrow> string \<Rightarrow> config prog" where
  "load_config e path = (\<lambda>s.
     (case omegaconf_load e path of
        None \<Rightarrow> Inl (ConfigLoadError path)
      | Some c \<Rightarrow> Inr c,
      [Call (OmegaConf_load path)], s))"

text \<open>
  The script run as a program: the bootstrap, then the block under
  \<^verbatim>\<open>if __name__ == "__main__"\<close>. An error of the parser ends the process with status 2.
  A namespace the parser returns always has the eight attributes, each of its type
  (lemma \<open>args_of_total\<close> below), so the second case of \<open>args_of\<close> is never taken.
\<close>

definition script :: "env \<Rightarrow> (string \<times> string) list \<Rightarrow> unit prog" where
  "script e argv =
     seq [bootstrap e,
          (case parse_args e argv of
             Inl err \<Rightarrow> raise (SystemExit 2)
           | Inr ns \<Rightarrow>
               (case args_of ns of
                  None \<Rightarrow> raise (SystemExit 2)
                | Some args \<Rightarrow>
                    bind_p (load_config e (unet_config_path args)) (\<lambda>config.
                      main e config args)))]"

section \<open>Observations of a run\<close>

text \<open>
  The statements below read a run through a few projections of its trace: the command
  lines started, the processes that exited, the directories made, and so on.
\<close>

fun runs :: "event list \<Rightarrow> string list list" where
  "runs [] = []"
| "runs (Run c # evs) = c # runs evs"
| "runs (ev # evs) = runs evs"

fun exits :: "event list \<Rightarrow> (string list \<times> int) list" where
  "exits [] = []"
| "exits (Exit c rc # evs) = (c, rc) # exits evs"
| "exits (ev # evs) = exits evs"


fun is_process_event :: "event \<Rightarrow> bool" where
  "is_process_event (Run c) = True"
| "is_process_event (Exit c rc) = True"
| "is_process_event ev = False"


text \<open>
  A trace is blocking when every process started has exited before anything else
  happens: each \<open>Run\<close> is followed at once by the \<open>Exit\<close> of the same command, or
  is the last event (the program could not be started), and no \<open>Exit\<close> stands alone.
\<close>

fun blocking :: "event list \<Rightarrow> bool" where
  "blocking [] = True"
| "blocking [Run c] = True"
| "blocking (Run c # Exit c' rc # evs) = (c = c' \<and> blocking evs)"
| "blocking (Run c # ev # evs) = False"
| "blocking (Exit c rc # evs) = False"
| "blocking (ev # evs) = blocking evs"

definition settled :: "event list \<Rightarrow> bool" where
  "settled evs = (evs = [] \<or> (\<forall>c. last evs \<noteq> Run c))"

text \<open>The model paths given to the audio encoder, in order.\<close>

fun whisper_paths :: "event list \<Rightarrow> string list" where
  "whisper_paths [] = []"
| "whisper_paths (Call (Audio2Feature p d n) # evs) = p # whisper_paths evs"
| "whisper_paths (ev # evs) = whisper_paths evs"

fun is_audio_encoder :: "event \<Rightarrow> bool" where
  "is_audio_encoder (Call (Audio2Feature p d n)) = True"
| "is_audio_encoder ev = False"

text \<open>
  The calls that load a model: the audio encoder, the VAE and the U-Net. The scheduler
  read on line 65 is a sampling schedule built from a configuration file; it has no
  weights and is not one of them.
\<close>

fun loads_model :: "event \<Rightarrow> bool" where
  "loads_model (Call (Audio2Feature p d n)) = True"
| "loads_model (Call (AutoencoderKL_from_pretrained p t)) = True"
| "loads_model (Call (UNet3DConditionModel_from_pretrained c p d)) = True"
| "loads_model ev = False"

text \<open>The seeding calls and the pipeline invocations of a trace, in order.\<close>

datatype seeding_step = Seeded int | Random_seeded | Pipeline_invoked

fun seeding_of :: "event \<Rightarrow> seeding_step option" where
  "seeding_of (Call (Set_seed n)) = Some (Seeded n)"
| "seeding_of (Call Torch_seed) = Some Random_seeded"
| "seeding_of (Call (Pipeline_call kw)) = Some Pipeline_invoked"
| "seeding_of ev = None"

fun seeding :: "event list \<Rightarrow> seeding_step list" where
  "seeding [] = []"
| "seeding (Call (Set_seed n) # evs) = Seeded n # seeding evs"
| "seeding (Call Torch_seed # evs) = Random_seeded # seeding evs"
| "seeding (Call (Pipeline_call kw) # evs) = Pipeline_invoked # seeding evs"
| "seeding (ev # evs) = seeding evs"

definition seeding_wanted :: "args \<Rightarrow> seeding_step" where
  "seeding_wanted args = (if seed args \<noteq> - 1 then Seeded (seed args) else Random_seeded)"

text \<open>
  \<^verbatim>\<open>sep.join(pieces)\<close>: the pieces with the separator between them. To replace a
  substring in a string is to cut the string at the occurrences of the substring and to
  join the pieces with the replacement.
\<close>

fun str_join :: "string \<Rightarrow> string list \<Rightarrow> string" where
  "str_join sep [] = []"
| "str_join sep [p] = p"
| "str_join sep (p # q # ps) = p @ sep @ str_join sep (q # ps)"

text \<open>The three directories of the chain, and a path after its directory was ensured.\<close>

definition frame_dirs :: "string list" where
  "frame_dirs = [frames_dir, enhanced_frames_dir, final_frames_dir]"


definition created :: "fs \<Rightarrow> string \<Rightarrow> node option" where
  "created s d = (case s d of None \<Rightarrow> Some Dir | Some n \<Rightarrow> Some n)"

text \<open>
  An environment is quiet on a set of paths when no library call, no process and no
  other program creates, removes or replaces what is at them or what they lead to.
\<close>

definition quiet :: "env \<Rightarrow> string set \<Rightarrow> bool" where
  "quiet e D =
     (\<forall>a f. \<forall>d\<in>D. fs_effect e a f d = f d
        \<and> path_exists e (fs_effect e a f) d = path_exists e f d)"

text \<open>
  How the file system of a run can differ from an earlier one on a set of paths: a
  path that held nothing may hold a directory, and a path that existed exists.
\<close>

definition grows :: "env \<Rightarrow> string set \<Rightarrow> fs \<Rightarrow> fs \<Rightarrow> bool" where
  "grows e D s s' =
     (\<forall>d\<in>D. (s' d = s d \<or> s d = None \<and> s' d = Some Dir)
        \<and> (path_exists e s d \<longrightarrow> path_exists e s' d))"

text \<open>
  Something is at the path and the path does not exist: a symbolic link that leads
  nowhere, or through more links than the system follows.
\<close>

definition dangling :: "env \<Rightarrow> fs \<Rightarrow> string \<Rightarrow> bool" where
  "dangling e s p = (s p \<noteq> None \<and> \<not> path_exists e s p)"

text \<open>What the test and the call of lines 122 and 123 come to, for a directory.\<close>

definition ensure_result :: "env \<Rightarrow> string \<Rightarrow> fs \<Rightarrow> exn + unit" where
  "ensure_result e d s =
     (if path_exists e s d then Inr ()
      else if fs_effect e (Mkdir d) s d \<noteq> None then Inl (FileExistsError d)
      else if makedirs_refused e d then Inl (OSError d)
      else Inr ())"

definition made :: "env \<Rightarrow> string \<Rightarrow> fs \<Rightarrow> bool" where
  "made e d s =
     (\<not> path_exists e s d \<and> fs_effect e (Mkdir d) s d = None \<and> \<not> makedirs_refused e d)"

definition exits_zero :: "env \<Rightarrow> string list \<Rightarrow> bool" where
  "exits_zero e cmd = (case proc_result e cmd of None \<Rightarrow> False | Some r \<Rightarrow> returncode r = 0)"

text \<open>The command line \<^verbatim>\<open>install_package\<close> builds.\<close>

definition pip_install_command :: "env \<Rightarrow> string \<Rightarrow> string list" where
  "pip_install_command e package_name =
     [sys_executable e, ''-m'', ''pip'', ''install'', package_name]"

text \<open>What a stage of the chain returns, from what its process did.\<close>

definition stage_result :: "env \<Rightarrow> string list \<Rightarrow> exn + unit" where
  "stage_result e cmd =
     (case proc_result e cmd of
        None \<Rightarrow> Inl (SpawnError cmd)
      | Some r \<Rightarrow>
          if returncode r = 0 \<or> utf8_ok (map of_char (stderr r)) then Inr ()
          else Inl UnicodeDecodeError)"




subsection \<open>Properties of programs that compose\<close>

definition emits_only :: "(event \<Rightarrow> bool) \<Rightarrow> 'a prog \<Rightarrow> bool" where
  "emits_only Q m = (\<forall>s. list_all Q (events (m s)))"

text \<open>
  A program is careful on a set of paths when its file system only grows on them and it
  raises \<^verbatim>\<open>FileExistsError\<close> or \<^verbatim>\<open>OSError\<close> for no other reason than this: a path of
  the set held something and did not exist when the program started, or it held
  nothing and the system refuses to make it.
\<close>

definition careful :: "env \<Rightarrow> string set \<Rightarrow> 'a prog \<Rightarrow> bool" where
  "careful e D m =
     (\<forall>s. grows e D s (final_fs (m s))
        \<and> (\<forall>d. outcome (m s) = Inl (FileExistsError d) \<longrightarrow>
              d \<in> D \<and> s d \<noteq> None \<and> \<not> path_exists e s d)
        \<and> (\<forall>d. outcome (m s) = Inl (OSError d) \<longrightarrow>
              d \<in> D \<and> s d = None \<and> makedirs_refused e d))"

definition stable :: "env \<Rightarrow> string set \<Rightarrow> 'a prog \<Rightarrow> bool" where
  "stable e D m =
     (\<forall>s. \<forall>d\<in>D. final_fs (m s) d = s d
        \<and> path_exists e (final_fs (m s)) d = path_exists e s d)"

definition tidy :: "'a prog \<Rightarrow> bool" where
  "tidy m = (\<forall>s. blocking (events (m s)) \<and> (isl (outcome (m s)) \<or> settled (events (m s))))"

text \<open>A program is strict when a process that exits with a non-zero code ends it there,
  with \<^verbatim>\<open>CalledProcessError\<close>.\<close>

definition strict :: "'a prog \<Rightarrow> bool" where
  "strict m = (\<forall>s cmd rc. Exit cmd rc \<in> set (events (m s)) \<and> rc \<noteq> 0 \<longrightarrow>
     outcome (m s) = Inl (CalledProcessError rc cmd) \<and> last (events (m s)) = Exit cmd rc)"

subsection \<open>Concrete inputs\<close>

definition example_config :: "int \<Rightarrow> config" where
  "example_config d =
     \<lparr>model = \<lparr>cross_attention_dim = d\<rparr>, data = \<lparr>num_frames = 16, resolution = 256\<rparr>\<rparr>"

definition example_args :: "int \<Rightarrow> args" where
  "example_args n =
     \<lparr>unet_config_path = ''configs/unet.yaml'', inference_ckpt_path = ''ckpt.pt'',
      video_path = ''in.mp4'', audio_path = ''in.wav'', video_out_path = ''out.mp4'',
      inference_steps = 20, guidance_scale = Finite 1, seed = n\<rparr>"

text \<open>An environment in which every library call returns and every process exits with 0.\<close>

definition example_env :: env where
  "example_env =
     \<lparr>cuda_is_available = True, cuda_device_capability = (8, 6),
      is_xformers_available = False, torch_initial_seed = 1247, import_gfpgan = Imported,
      sys_executable = ''python3'', lib_raises = (\<lambda>_. False),
      proc_result = (\<lambda>_. Some \<lparr>returncode = 0, stderr = []\<rparr>),
      fs_effect = (\<lambda>_ s. s), max_symlinks = 40, makedirs_refused = (\<lambda>_. False),
      omegaconf_load = (\<lambda>_. Some (example_config 384)),
      int_of_str = (\<lambda>_. None), float_of_str = (\<lambda>_. None)\<rparr>"

text \<open>The same, but frame extraction exits with 1 and leaves the byte 0xFF on standard
  error.\<close>

definition undecodable_env :: env where
  "undecodable_env =
     example_env\<lparr>proc_result := (\<lambda>cmd.
       if cmd = ffmpeg_command (example_args 1247)
       then Some \<lparr>returncode = 1, stderr = [CHR 0xFF]\<rparr>
       else Some \<lparr>returncode = 0, stderr = []\<rparr>)\<rparr>"

text \<open>The same as the first, but \<^verbatim>\<open>git clone\<close> exits with 128.\<close>

definition failing_clone_env :: env where
  "failing_clone_env =
     example_env\<lparr>proc_result := (\<lambda>cmd.
       if cmd = git_clone_command then Some \<lparr>returncode = 128, stderr = []\<rparr>
       else Some \<lparr>returncode = 0, stderr = []\<rparr>)\<rparr>"

text \<open>A command line with the four required options and nothing else.\<close>

definition example_argv :: "(string \<times> string) list" where
  "example_argv =
     [(''--inference_ckpt_path'', ''ckpt.pt''), (''--video_path'', ''in.mp4''),
      (''--audio_path'', ''in.wav''), (''--video_out_path'', ''out.mp4'')]"

text \<open>The keyword arguments and the events before the pipeline call, for these inputs.\<close>

definition example_kwargs :: pipeline_kwargs where
  "example_kwargs =
     \<lparr>kw_video_path = ''in.mp4'', kw_audio_path = ''in.wav'',
      kw_video_out_path = ''out.mp4'', video_mask_path = ''out_mask.mp4'',
      kw_num_frames = 16, num_inference_steps = 20,
      kw_guidance_scale = Finite 1, weight_dtype = Float16, width = 256, height = 256\<rparr>"

definition example_prefix :: "int \<Rightarrow> event list" where
  "example_prefix n =
     [Print ''Input video path: in.mp4'', Print ''Input audio path: in.wav'',
      Print ''Loaded checkpoint path: ckpt.pt'',
      Call (DDIMScheduler_from_pretrained ''configs''),
      Call (Audio2Feature ''checkpoints/whisper/tiny.pt'' ''cuda'' 16),
      Call (AutoencoderKL_from_pretrained ''stabilityai/sd-vae-ft-mse'' Float16),
      Call (UNet3DConditionModel_from_pretrained \<lparr>cross_attention_dim = 384\<rparr>
        ''ckpt.pt'' ''cpu''),
      Call (Unet_to Float16), Call LipsyncPipeline_init,
      Call (LipsyncPipeline_to ''cuda''),
      Call (if n \<noteq> - 1 then Set_seed n else Torch_seed),
      Print ''Initial seed: 1247'']"

section \<open>Running the primitives\<close>

lemma run_succeed [simp]:
  "outcome (succeed x s) = Inr x" "events (succeed x s) = []" "final_fs (succeed x s) = s"
  by (simp_all add: succeed_def outcome_def events_def final_fs_def)

lemma run_raise [simp]:
  "outcome (raise ex s) = Inl ex" "events (raise ex s) = []" "final_fs (raise ex s) = s"
  by (simp_all add: raise_def outcome_def events_def final_fs_def)

lemma run_emit [simp]:
  "outcome (emit ev s) = Inr ()" "events (emit ev s) = [ev]" "final_fs (emit ev s) = s"
  by (simp_all add: emit_def outcome_def events_def final_fs_def)

lemma run_print [simp]:
  "outcome (print t s) = Inr ()" "events (print t s) = [Print t]" "final_fs (print t s) = s"
  by (simp_all add: print_def)

lemma run_lib [simp]:
  "outcome (lib e c s) = (if lib_raises e c then Inl (LibraryError c) else Inr ())"
  "events (lib e c s) = [Call c]"
  "final_fs (lib e c s) = fs_effect e (Lib c) s"
  by (simp_all add: lib_def outcome_def events_def final_fs_def)

lemma run_exists [simp]:
  "outcome (os_path_exists e p s) = Inr (path_exists e s p)"
  "events (os_path_exists e p s) = []"
  "final_fs (os_path_exists e p s) = s"
  by (simp_all add: os_path_exists_def outcome_def events_def final_fs_def)

lemma run_makedirs [simp]:
  "outcome (os_makedirs e p s) =
     (if fs_effect e (Mkdir p) s p \<noteq> None then Inl (FileExistsError p)
      else if makedirs_refused e p then Inl (OSError p) else Inr ())"
  "events (os_makedirs e p s) =
     (if fs_effect e (Mkdir p) s p = None \<and> \<not> makedirs_refused e p then [Makedirs p] else [])"
  "final_fs (os_makedirs e p s) =
     (if fs_effect e (Mkdir p) s p = None \<and> \<not> makedirs_refused e p
      then (fs_effect e (Mkdir p) s)(p \<mapsto> Dir) else fs_effect e (Mkdir p) s)"
  by (simp_all add: os_makedirs_def Let_def outcome_def events_def final_fs_def)

lemma run_subprocess_run [simp]:
  "outcome (subprocess_run e cmd s) =
     (case proc_result e cmd of None \<Rightarrow> Inl (SpawnError cmd) | Some r \<Rightarrow> Inr r)"
  "events (subprocess_run e cmd s) =
     (case proc_result e cmd of None \<Rightarrow> [Run cmd]
      | Some r \<Rightarrow> [Run cmd, Exit cmd (returncode r)])"
  "final_fs (subprocess_run e cmd s) =
     (case proc_result e cmd of None \<Rightarrow> s | Some r \<Rightarrow> fs_effect e (Proc cmd) s)"
  by (simp_all add: subprocess_run_def outcome_def events_def final_fs_def split: option.splits)

lemma run_check_call [simp]:
  "outcome (subprocess_check_call e cmd s) =
     (case proc_result e cmd of None \<Rightarrow> Inl (SpawnError cmd)
      | Some r \<Rightarrow> if returncode r = 0 then Inr ()
                  else Inl (CalledProcessError (returncode r) cmd))"
  "events (subprocess_check_call e cmd s) =
     (case proc_result e cmd of None \<Rightarrow> [Run cmd]
      | Some r \<Rightarrow> [Run cmd, Exit cmd (returncode r)])"
  "final_fs (subprocess_check_call e cmd s) =
     (case proc_result e cmd of None \<Rightarrow> s | Some r \<Rightarrow> fs_effect e (Proc cmd) s)"
  by (simp_all add: subprocess_check_call_def outcome_def events_def final_fs_def
      split: option.splits)

lemma run_decode [simp]:
  "outcome (decode_utf8 bs s) =
     (if utf8_ok (map of_char bs) then Inr bs else Inl UnicodeDecodeError)"
  "events (decode_utf8 bs s) = []"
  "final_fs (decode_utf8 bs s) = s"
  by (simp_all add: decode_utf8_def)

lemma outcome_bind:
  "outcome (bind_p m f s) =
     (case outcome (m s) of Inl ex \<Rightarrow> Inl ex | Inr x \<Rightarrow> outcome (f x (final_fs (m s))))"
  by (simp add: bind_p_def outcome_def final_fs_def split: prod.splits sum.splits)

lemma events_bind:
  "events (bind_p m f s) =
     events (m s) @
       (case outcome (m s) of Inl ex \<Rightarrow> [] | Inr x \<Rightarrow> events (f x (final_fs (m s))))"
  by (simp add: bind_p_def outcome_def events_def final_fs_def split: prod.splits sum.splits)

lemma final_fs_bind:
  "final_fs (bind_p m f s) =
     (case outcome (m s) of
        Inl ex \<Rightarrow> final_fs (m s)
      | Inr x \<Rightarrow> final_fs (f x (final_fs (m s))))"
  by (simp add: bind_p_def outcome_def final_fs_def split: prod.splits sum.splits)

lemmas run_bind = outcome_bind events_bind final_fs_bind

lemma bind_succeed_right [simp]: "bind_p m (\<lambda>_. succeed ()) = m"
  by (rule ext) (simp add: bind_p_def succeed_def split: prod.splits sum.splits)

lemma bind_succeed_right_eta [simp]: "bind_p m succeed = m"
  by (rule ext) (simp add: bind_p_def succeed_def split: prod.splits sum.splits)

lemma case_sum_if:
  "case_sum f g (if c then x else y) = (if c then case_sum f g x else case_sum f g y)"
  by simp

lemma if_app: "(if b then f else g) x = (if b then f x else g x)"
  by simp

lemma run_ensure_dir [simp]:
  "outcome (ensure_dir e d s) = ensure_result e d s"
  "events (ensure_dir e d s) = (if made e d s then [Makedirs d] else [])"
  "final_fs (ensure_dir e d s) =
     (if path_exists e s d then s
      else if made e d s then (fs_effect e (Mkdir d) s)(d \<mapsto> Dir)
      else fs_effect e (Mkdir d) s)"
  by (simp_all add: ensure_dir_def run_bind ensure_result_def made_def)

text \<open>Following links.\<close>

lemma follow_None: "s p = None \<Longrightarrow> follow n s p = None"
  by (cases n) simp_all


lemma follow_Dir: "s p = Some Dir \<Longrightarrow> follow n s p = Some Dir"
  by (cases n) simp_all

lemma follow_mkdir:
  assumes "s p = None" and "follow n s q \<noteq> None"
  shows "follow n (s(p \<mapsto> Dir)) q = follow n s q"
  using assms(2)
proof (induction n arbitrary: q)
  case 0
  with assms(1) show ?case
    by (cases "q = p") (auto split: option.splits node.splits)
next
  case (Suc n)
  with assms(1) show ?case
    by (cases "q = p") (auto split: option.splits node.splits)
qed

lemma follow_nowhere: "s p = Some (Symlink t) \<Longrightarrow> s t = None \<Longrightarrow> follow n s p = None"
  by (cases n) (simp_all add: follow_None)

lemma not_exists_None: "s p = None \<Longrightarrow> \<not> path_exists e s p"
  by (simp add: path_exists_def follow_None)

lemma not_exists_nowhere:
  "s p = Some (Symlink t) \<Longrightarrow> s t = None \<Longrightarrow> \<not> path_exists e s p"
  by (simp add: path_exists_def follow_nowhere)

lemma exists_Dir: "s p = Some Dir \<Longrightarrow> path_exists e s p"
  by (simp add: path_exists_def follow_Dir)

lemma exists_mkdir: "s p = None \<Longrightarrow> path_exists e s q \<Longrightarrow> path_exists e (s(p \<mapsto> Dir)) q"
  by (simp add: path_exists_def follow_mkdir)


text \<open>Where nothing outside touches the directory.\<close>

lemma quiet_entry: "quiet e D \<Longrightarrow> d \<in> D \<Longrightarrow> fs_effect e a s d = s d"
  by (simp add: quiet_def)



lemma ensure_result_quiet:
  "quiet e D \<Longrightarrow> d \<in> D \<Longrightarrow>
     ensure_result e d s =
       (if path_exists e s d then Inr ()
        else if s d \<noteq> None then Inl (FileExistsError d)
        else if makedirs_refused e d then Inl (OSError d)
        else Inr ())"
  by (simp add: ensure_result_def quiet_entry)

lemma ensure_result_cases:
  "ensure_result e d s = Inr () \<or> ensure_result e d s = Inl (FileExistsError d)
     \<or> ensure_result e d s = Inl (OSError d)"
  by (simp add: ensure_result_def)




lemma outcome_report:
  "outcome (report r a b s) =
     (if returncode r = 0 \<or> utf8_ok (map of_char (stderr r)) then Inr ()
      else Inl UnicodeDecodeError)"
  by (simp add: report_def run_bind)

lemma events_report:
  "events (report r a b s) =
     (if returncode r = 0 then [Print a]
      else if utf8_ok (map of_char (stderr r)) then [Print b, Print (stderr r)]
      else [Print b])"
  by (simp add: report_def run_bind)


lemma install_package_eq:
  "install_package e p = subprocess_check_call e (pip_install_command e p)"
  by (simp add: install_package_def pip_install_command_def)

lemmas stage_defs = extract_frames_def enhance_gfpgan_def refine_codeformer_def reassemble_def

section \<open>Replacing a substring\<close>

text \<open>
  What \<^verbatim>\<open>str.replace\<close> returns, said without it. A string in which the old substring
  does not occur is returned as it is; an occurrence with none before it is replaced
  and the rest is treated in the same way. So when the string is cut into pieces free
  of the old substring, the result is the pieces joined by the new one. This is stated
  for an old substring whose first character does not come back in it, as in
  \<^verbatim>\<open>.mp4\<close>: no occurrence then overlaps a cut. Every string can be cut so.
\<close>

lemma str_replace_absent:
  assumes "old \<noteq> []" and "\<not> sublist old s"
  shows "str_replace old new s = s"
  using assms(2)
proof (induction s)
  case Nil
  then show ?case using assms(1) by simp
next
  case (Cons c cs)
  from Cons.prems have "\<not> prefix old (c # cs)" and "\<not> sublist old cs"
    by (auto simp: sublist_Cons_right)
  moreover have "take (length old) (c # cs) = old \<Longrightarrow> prefix old (c # cs)"
    by (metis take_is_prefix)
  ultimately show ?case
    using assms(1) Cons.IH by auto
qed

lemma no_early_match:
  assumes "c0 \<notin> set r" and "\<not> sublist (c0 # r) p" and "p \<noteq> []"
  shows "take (length (c0 # r)) (p @ (c0 # r) @ t) \<noteq> c0 # r"
proof
  assume eq: "take (length (c0 # r)) (p @ (c0 # r) @ t) = c0 # r"
  show False
  proof (cases "length (c0 # r) \<le> length p")
    case True
    with eq have "take (length (c0 # r)) p = c0 # r" by simp
    then have "prefix (c0 # r) p" by (metis take_is_prefix)
    with assms(2) show False by (auto dest: prefix_imp_sublist)
  next
    case False
    then have lt: "length p < length (c0 # r)" by simp
    from eq have "(take (length (c0 # r)) (p @ (c0 # r) @ t)) ! length p = (c0 # r) ! length p"
      by simp
    with lt have "c0 = (c0 # r) ! length p"
      by (simp add: nth_append)
    moreover from assms(3) have "0 < length p" by simp
    ultimately have "c0 = r ! (length p - 1)" by (simp add: nth_Cons')
    moreover from lt assms(3) have "length p - 1 < length r" by (cases p) simp_all
    ultimately show False using assms(1) by (metis nth_mem)
  qed
qed

lemma str_replace_first:
  assumes "c0 \<notin> set r" and "\<not> sublist (c0 # r) p"
  shows "str_replace (c0 # r) new (p @ (c0 # r) @ t) = p @ new @ str_replace (c0 # r) new t"
  using assms(2)
proof (induction p)
  case Nil
  show ?case by simp
next
  case (Cons c p)
  from Cons.prems have "\<not> sublist (c0 # r) p"
    by (auto simp: sublist_Cons_right)
  moreover have "take (length (c0 # r)) ((c # p) @ (c0 # r) @ t) \<noteq> c0 # r"
    by (rule no_early_match [OF assms(1) Cons.prems]) simp
  ultimately show ?case
    using Cons.IH by (simp del: take_Suc_Cons)
qed

lemma str_replace_pieces:
  assumes "c0 \<notin> set r" and "ps \<noteq> []" and "\<forall>p\<in>set ps. \<not> sublist (c0 # r) p"
  shows "str_replace (c0 # r) new (str_join (c0 # r) ps) = str_join new ps"
  using assms(2,3)
proof (induction "c0 # r" ps rule: str_join.induct)
  case 1
  then show ?case by simp
next
  case (2 p)
  then show ?case by (simp add: str_replace_absent)
next
  case (3 p q ps)
  then show ?case
    using str_replace_first [OF assms(1), of p new "str_join (c0 # r) (q # ps)"] by simp
qed

lemma str_join_Cons_append: "str_join sep ((a @ b) # qs) = a @ str_join sep (b # qs)"
  by (cases qs) simp_all

lemma pieces_exist:
  assumes "old \<noteq> []"
  shows "\<exists>ps. ps \<noteq> [] \<and> (\<forall>p\<in>set ps. \<not> sublist old p) \<and> s = str_join old ps"
proof (induction s)
  case Nil
  have "[] \<noteq> [[]::string] \<and> (\<forall>p\<in>set [[]]. \<not> sublist old p) \<and> [] = str_join old [[]]"
    using assms by simp
  then show ?case by (intro exI [of _ "[[]]"]) simp
next
  case (Cons c s)
  then obtain ps where ps: "ps \<noteq> []" "\<forall>p\<in>set ps. \<not> sublist old p" "s = str_join old ps"
    by blast
  then obtain p qs where pq: "ps = p # qs" by (cases ps) auto
  show ?case
  proof (cases "sublist old (c # p)")
    case False
    have "c # s = str_join old ((c # p) # qs)"
      using str_join_Cons_append [of old "[c]" p qs] ps(3) pq by simp
    with False ps(2) pq show ?thesis
      by (intro exI [of _ "(c # p) # qs"]) simp
  next
    case True
    with ps(2) pq have "prefix old (c # p)"
      by (auto simp: sublist_Cons_right)
    then obtain p2 where p2: "c # p = old @ p2"
      by (auto simp: prefix_def)
    with assms have "suffix p2 p"
      by (cases old) (auto simp: suffix_def)
    then have "\<not> sublist old p2"
      using ps(2) pq by (auto dest: suffix_imp_sublist sublist_order.order_trans)
    moreover have "c # s = str_join old ([] # p2 # qs)"
      using str_join_Cons_append [of old "[c]" p qs] str_join_Cons_append [of old old p2 qs]
        ps(3) pq p2 by simp
    ultimately show ?thesis
      using assms ps(2) pq by (intro exI [of _ "[] # p2 # qs"]) simp
  qed
qed

lemma cut_at_mp4:
  assumes "ps \<noteq> []" and "\<forall>p\<in>set ps. \<not> sublist ''.mp4'' p"
  shows "str_replace ''.mp4'' new (str_join ''.mp4'' ps) = str_join new ps"
  by (rule str_replace_pieces [OF _ assms]) simp

lemma mask_path_examples:
  "str_replace ''.mp4'' ''_mask.mp4'' ''clip.mp4'' = ''clip_mask.mp4''"
  "str_replace ''.mp4'' ''_mask.mp4'' ''clip'' = ''clip''"
  "str_replace ''.mp4'' ''_mask.mp4'' ''a.mp4/b.mp4'' = ''a_mask.mp4/b_mask.mp4''"
  "str_replace ''.mp4'' ''_mask.mp4'' ''clip.mp4.mp'' = ''clip_mask.mp4.mp''"
  by simp_all

section \<open>What a program may emit\<close>

lemma emits_onlyD: "emits_only Q m \<Longrightarrow> ev \<in> set (events (m s)) \<Longrightarrow> Q ev"
  by (auto simp: emits_only_def list_all_iff)

lemma emits_silent:
  "emits_only Q (succeed x)" "emits_only Q (raise ex)" "emits_only Q (os_path_exists e p)"
  "emits_only Q (decode_utf8 bs)"
  by (simp_all add: emits_only_def)

lemma emits_emit: "Q ev \<Longrightarrow> emits_only Q (emit ev)"
  by (simp add: emits_only_def)

lemma emits_print: "Q (Print t) \<Longrightarrow> emits_only Q (print t)"
  by (simp add: emits_only_def)

lemma emits_lib: "Q (Call c) \<Longrightarrow> emits_only Q (lib e c)"
  by (simp add: emits_only_def)

lemma emits_makedirs: "Q (Makedirs p) \<Longrightarrow> emits_only Q (os_makedirs e p)"
  by (simp add: emits_only_def)

lemma emits_run:
  "Q (Run cmd) \<Longrightarrow> (\<And>rc. Q (Exit cmd rc)) \<Longrightarrow> emits_only Q (subprocess_run e cmd)"
  by (simp add: emits_only_def split: option.splits)

lemma emits_check_call:
  "Q (Run cmd) \<Longrightarrow> (\<And>rc. Q (Exit cmd rc)) \<Longrightarrow> emits_only Q (subprocess_check_call e cmd)"
  by (simp add: emits_only_def split: option.splits)

lemma emits_bind:
  "emits_only Q m \<Longrightarrow> (\<And>x. emits_only Q (f x)) \<Longrightarrow> emits_only Q (bind_p m f)"
  by (simp add: emits_only_def events_bind split: sum.splits)

lemma emits_seq_Nil: "emits_only Q (seq [])"
  by (simp add: emits_silent)

lemma emits_seq_Cons: "emits_only Q m \<Longrightarrow> emits_only Q (seq ms) \<Longrightarrow> emits_only Q (seq (m # ms))"
  by (simp add: emits_bind)

lemma emits_if: "emits_only Q a \<Longrightarrow> emits_only Q b \<Longrightarrow> emits_only Q (if c then a else b)"
  by simp

lemma emits_import:
  "emits_only Q a \<Longrightarrow> emits_only Q b \<Longrightarrow> emits_only Q c \<Longrightarrow>
     emits_only Q (case r of Imported \<Rightarrow> a | Raises_ImportError \<Rightarrow> b | Raises_other \<Rightarrow> c)"
  by (cases r) simp_all

lemmas emits_rules =
  emits_silent emits_emit emits_print emits_lib emits_makedirs emits_run emits_check_call
  emits_bind emits_seq_Nil emits_seq_Cons emits_if emits_import

lemma emits_ensure_dir: "Q (Makedirs d) \<Longrightarrow> emits_only Q (ensure_dir e d)"
  unfolding ensure_dir_def by (intro emits_rules)

lemma emits_report: "(\<And>t. Q (Print t)) \<Longrightarrow> emits_only Q (report r a b)"
  unfolding report_def by (intro emits_rules)

lemma emits_main_inference:
  assumes "\<And>t. Q (Print t)" "\<And>c. Q (Call c)"
  shows "emits_only Q (main_inference e config args)"
  unfolding main_inference_def Let_def
  by (intro emits_rules assms)

lemma emits_main_postprocess:
  assumes "\<And>t. Q (Print t)" "\<And>d. Q (Makedirs d)" "\<And>c. Q (Run c)" "\<And>c rc. Q (Exit c rc)"
  shows "emits_only Q (main_postprocess e args)"
  unfolding main_postprocess_def stage_defs
  by (intro emits_rules emits_ensure_dir emits_report assms)

section \<open>Paths a program leaves alone\<close>

lemma stableD: "stable e D m \<Longrightarrow> d \<in> D \<Longrightarrow> final_fs (m s) d = s d"
  by (simp add: stable_def)

lemma stable_pure:
  "stable e D (succeed x)" "stable e D (raise ex)" "stable e D (emit ev)"
  "stable e D (print t)" "stable e D (os_path_exists e' p)" "stable e D (decode_utf8 bs)"
  by (simp_all add: stable_def)

lemma stable_lib: "quiet e D \<Longrightarrow> stable e D (lib e c)"
  by (simp add: stable_def quiet_def)

lemma stable_bind:
  "stable e D m \<Longrightarrow> (\<And>x. stable e D (f x)) \<Longrightarrow> stable e D (bind_p m f)"
  by (simp add: stable_def final_fs_bind split: sum.splits)

lemma stable_seq_Nil: "stable e D (seq [])"
  by (simp add: stable_pure)

lemma stable_seq_Cons: "stable e D m \<Longrightarrow> stable e D (seq ms) \<Longrightarrow> stable e D (seq (m # ms))"
  by (simp add: stable_bind)

lemma stable_if: "stable e D a \<Longrightarrow> stable e D b \<Longrightarrow> stable e D (if c then a else b)"
  by simp

lemmas stable_rules =
  stable_pure stable_lib stable_bind stable_seq_Nil stable_seq_Cons stable_if

lemma stable_main_inference: "quiet e D \<Longrightarrow> stable e D (main_inference e config args)"
  unfolding main_inference_def Let_def by (intro stable_rules)

section \<open>Where making a directory fails\<close>

lemma grows_refl: "grows e D s s"
  by (simp add: grows_def)

lemma grows_trans: "grows e D s s' \<Longrightarrow> grows e D s' s'' \<Longrightarrow> grows e D s s''"
  unfolding grows_def by (metis option.distinct(1))

lemma grows_quiet: "quiet e D \<Longrightarrow> grows e D s (fs_effect e a s)"
  by (simp add: grows_def quiet_def)

lemma grows_mkdir: "s p = None \<Longrightarrow> grows e D s (s(p \<mapsto> Dir))"
  by (simp add: grows_def exists_mkdir)

lemma grows_entry: "grows e D s s' \<Longrightarrow> d \<in> D \<Longrightarrow> s' d = None \<Longrightarrow> s d = None"
  unfolding grows_def by (metis option.distinct(1))

lemma grows_exists: "grows e D s s' \<Longrightarrow> d \<in> D \<Longrightarrow> path_exists e s d \<Longrightarrow> path_exists e s' d"
  by (simp add: grows_def)

lemma grows_dangling:
  assumes "grows e D s s'" and "d \<in> D" and "s' d \<noteq> None" and "\<not> path_exists e s' d"
  shows "s d \<noteq> None \<and> \<not> path_exists e s d"
proof -
  from assms(1,2) have "s' d = s d \<or> s d = None \<and> s' d = Some Dir"
    by (simp add: grows_def)
  moreover from assms(4) have "s' d \<noteq> Some Dir"
    by (auto dest: exists_Dir)
  ultimately have "s d \<noteq> None"
    using assms(3) by auto
  with grows_exists [OF assms(1,2)] assms(4) show ?thesis by blast
qed

lemma carefulD:
  assumes "careful e D m"
  shows "grows e D s (final_fs (m s))"
    and "outcome (m s) = Inl (FileExistsError d) \<Longrightarrow> d \<in> D \<and> s d \<noteq> None \<and> \<not> path_exists e s d"
    and "outcome (m s) = Inl (OSError d) \<Longrightarrow> d \<in> D \<and> s d = None \<and> makedirs_refused e d"
  using assms by (simp_all add: careful_def)

lemma careful_pure:
  "careful e D (succeed x)" "careful e D (emit ev)" "careful e D (print t)"
  "careful e D (os_path_exists e' p)" "careful e D (decode_utf8 bs)"
  by (simp_all add: careful_def grows_refl)

lemma careful_raise:
  "(\<And>d. ex \<noteq> FileExistsError d) \<Longrightarrow> (\<And>d. ex \<noteq> OSError d) \<Longrightarrow> careful e D (raise ex)"
  by (simp add: careful_def grows_refl)

lemma careful_lib: "quiet e D \<Longrightarrow> careful e D (lib e c)"
  by (simp add: careful_def grows_quiet)

lemma careful_run: "quiet e D \<Longrightarrow> careful e D (subprocess_run e cmd)"
  by (simp add: careful_def grows_quiet grows_refl split: option.splits)

lemma careful_ensure_dir:
  assumes "quiet e D" and "d \<in> D"
  shows "careful e D (ensure_dir e d)"
proof -
  have "grows e D s (final_fs (ensure_dir e d s))" for s
  proof -
    have "grows e D s (fs_effect e (Mkdir d) s)"
      by (rule grows_quiet [OF assms(1)])
    moreover have "grows e D (fs_effect e (Mkdir d) s) ((fs_effect e (Mkdir d) s)(d \<mapsto> Dir))"
      if "made e d s"
      using that by (intro grows_mkdir) (simp add: made_def)
    ultimately show ?thesis
      by (auto simp add: grows_refl intro: grows_trans)
  qed
  then show ?thesis
    using assms by (simp add: careful_def ensure_result_quiet)
qed

lemma careful_bind:
  assumes "careful e D m" and "\<And>x. careful e D (f x)"
  shows "careful e D (bind_p m f)"
  unfolding careful_def
proof (intro allI)
  fix s
  let ?s' = "final_fs (m s)"
  note m = carefulD [OF assms(1), of s]
  show "grows e D s (final_fs (bind_p m f s))
      \<and> (\<forall>d. outcome (bind_p m f s) = Inl (FileExistsError d) \<longrightarrow>
            d \<in> D \<and> s d \<noteq> None \<and> \<not> path_exists e s d)
      \<and> (\<forall>d. outcome (bind_p m f s) = Inl (OSError d) \<longrightarrow>
            d \<in> D \<and> s d = None \<and> makedirs_refused e d)"
  proof (cases "outcome (m s)")
    case (Inl ex)
    with m show ?thesis
      by (simp add: outcome_bind final_fs_bind)
  next
    case (Inr x)
    note f = carefulD [OF assms(2) [of x], of ?s']
    have "grows e D s (final_fs (f x ?s'))"
      by (rule grows_trans [OF m(1) f(1)])
    moreover have "d \<in> D \<and> s d \<noteq> None \<and> \<not> path_exists e s d"
      if "outcome (f x ?s') = Inl (FileExistsError d)" for d
      using f(2) [OF that] grows_dangling [OF m(1), of d] by blast
    moreover have "d \<in> D \<and> s d = None \<and> makedirs_refused e d"
      if "outcome (f x ?s') = Inl (OSError d)" for d
      using f(3) [OF that] grows_entry [OF m(1), of d] by blast
    ultimately show ?thesis
      using Inr by (simp add: outcome_bind final_fs_bind)
  qed
qed

lemma careful_seq_Nil: "careful e D (seq [])"
  by (simp add: careful_pure)

lemma careful_seq_Cons:
  "careful e D m \<Longrightarrow> careful e D (seq ms) \<Longrightarrow> careful e D (seq (m # ms))"
  by (simp add: careful_bind)

lemma careful_if: "careful e D a \<Longrightarrow> careful e D b \<Longrightarrow> careful e D (if c then a else b)"
  by simp

lemmas careful_rules =
  careful_pure careful_raise careful_lib careful_run careful_bind careful_seq_Nil
  careful_seq_Cons careful_if

lemma careful_report: "careful e D (report r a b)"
  unfolding report_def by (intro careful_rules)


lemma careful_extract_frames:
  "quiet e D \<Longrightarrow> frames_dir \<in> D \<Longrightarrow> careful e D (extract_frames e args)"
  unfolding extract_frames_def by (intro careful_rules careful_ensure_dir careful_report)

lemma careful_enhance_gfpgan:
  "quiet e D \<Longrightarrow> enhanced_frames_dir \<in> D \<Longrightarrow> careful e D (enhance_gfpgan e)"
  unfolding enhance_gfpgan_def by (intro careful_rules careful_ensure_dir careful_report)






section \<open>Projections of a trace\<close>

lemma runs_append: "runs (a @ b) = runs a @ runs b"
  by (induction a rule: runs.induct) simp_all

lemma exits_append: "exits (a @ b) = exits a @ exits b"
  by (induction a rule: exits.induct) simp_all


lemma whisper_paths_append: "whisper_paths (a @ b) = whisper_paths a @ whisper_paths b"
  by (induction a rule: whisper_paths.induct) simp_all

lemma seeding_append: "seeding (a @ b) = seeding a @ seeding b"
  by (induction a rule: seeding.induct) simp_all

lemma runs_none: "list_all (\<lambda>ev. \<not> is_process_event ev) evs \<Longrightarrow> runs evs = []"
  by (induction evs rule: runs.induct) simp_all

lemma exits_none: "list_all (\<lambda>ev. \<not> is_process_event ev) evs \<Longrightarrow> exits evs = []"
  by (induction evs rule: exits.induct) simp_all


lemma whisper_paths_none:
  "list_all (\<lambda>ev. \<not> is_audio_encoder ev) evs \<Longrightarrow> whisper_paths evs = []"
  by (induction evs rule: whisper_paths.induct) simp_all

lemma seeding_none: "list_all (\<lambda>ev. seeding_of ev = None) evs \<Longrightarrow> seeding evs = []"
  by (induction evs rule: seeding.induct) simp_all


lemma whisper_paths_emits:
  "emits_only (\<lambda>ev. \<not> is_audio_encoder ev) m \<Longrightarrow> whisper_paths (events (m s)) = []"
  by (simp add: emits_only_def whisper_paths_none)

lemma seeding_emits:
  "emits_only (\<lambda>ev. seeding_of ev = None) m \<Longrightarrow> seeding (events (m s)) = []"
  by (simp add: emits_only_def seeding_none)

lemma seeding_set: "x \<in> set (seeding evs) \<longleftrightarrow> (\<exists>ev \<in> set evs. seeding_of ev = Some x)"
  by (induction evs rule: seeding.induct) auto

lemma seeding_of_Seeded: "seeding_of ev = Some (Seeded n) \<longleftrightarrow> ev = Call (Set_seed n)"
  by (cases ev rule: seeding_of.cases) auto

lemma seeding_of_Random: "seeding_of ev = Some Random_seeded \<longleftrightarrow> ev = Call Torch_seed"
  by (cases ev rule: seeding_of.cases) auto

lemma seeding_of_Pipeline:
  "seeding_of ev = Some Pipeline_invoked \<longleftrightarrow> (\<exists>kw. ev = Call (Pipeline_call kw))"
  by (cases ev rule: seeding_of.cases) auto

section \<open>Blocking traces\<close>

lemma blocking_none: "list_all (\<lambda>ev. \<not> is_process_event ev) evs \<Longrightarrow> blocking evs"
  by (induction evs rule: blocking.induct) simp_all

lemma settled_none: "list_all (\<lambda>ev. \<not> is_process_event ev) evs \<Longrightarrow> settled evs"
  by (cases evs rule: rev_cases) (auto simp: settled_def)

lemma settled_append: "settled a \<Longrightarrow> settled b \<Longrightarrow> settled (a @ b)"
  by (cases b) (auto simp: settled_def)

lemma settled_tl: "settled (ev # evs) \<Longrightarrow> settled evs"
  by (cases evs) (auto simp: settled_def)

lemma blocking_append: "blocking a \<Longrightarrow> settled a \<Longrightarrow> blocking b \<Longrightarrow> blocking (a @ b)"
proof (induction a rule: blocking.induct)
  case 1
  then show ?case by simp
next
  case (2 c)
  then show ?case by (simp add: settled_def)
qed (auto dest: settled_tl)

lemma tidy_quiet: "emits_only (\<lambda>ev. \<not> is_process_event ev) m \<Longrightarrow> tidy m"
  by (simp add: tidy_def emits_only_def blocking_none settled_none)

lemma tidy_run: "tidy (subprocess_run e cmd)"
  by (simp add: tidy_def settled_def split: option.splits)

lemma tidy_bind:
  assumes "tidy m" and "\<And>x. tidy (f x)"
  shows "tidy (bind_p m f)"
  unfolding tidy_def
proof (intro allI)
  fix s
  show "blocking (events (bind_p m f s))
      \<and> (isl (outcome (bind_p m f s)) \<or> settled (events (bind_p m f s)))"
  proof (cases "outcome (m s)")
    case (Inl ex)
    then show ?thesis
      using assms(1) by (simp add: tidy_def events_bind outcome_bind)
  next
    case (Inr x)
    have m: "blocking (events (m s))" "settled (events (m s))"
      using assms(1) Inr by (auto simp: tidy_def dest: spec [of _ s])
    have f: "blocking (events (f x (final_fs (m s))))"
      "isl (outcome (f x (final_fs (m s)))) \<or> settled (events (f x (final_fs (m s))))"
      using assms(2) [of x] by (auto simp: tidy_def)
    show ?thesis
      using m f Inr by (auto simp: events_bind outcome_bind blocking_append settled_append)
  qed
qed

lemma tidy_seq_Nil: "tidy (seq [])"
  by (simp add: tidy_def settled_def)

lemma tidy_seq_Cons: "tidy m \<Longrightarrow> tidy (seq ms) \<Longrightarrow> tidy (seq (m # ms))"
  by (simp add: tidy_bind)

lemma tidy_print: "tidy (print t)"
  by (rule tidy_quiet) (simp add: emits_print)

lemma tidy_ensure_dir: "tidy (ensure_dir e d)"
  by (rule tidy_quiet) (simp add: emits_ensure_dir)

lemma tidy_report: "tidy (report r a b)"
  by (rule tidy_quiet) (simp add: emits_report)

lemma tidy_main_postprocess: "tidy (main_postprocess e args)"
  unfolding main_postprocess_def stage_defs
  by (intro tidy_seq_Cons tidy_seq_Nil tidy_bind tidy_run tidy_print tidy_ensure_dir tidy_report)

lemma tidy_main: "tidy (main e config args)"
  unfolding main_def
  by (intro tidy_seq_Cons tidy_seq_Nil tidy_main_postprocess tidy_quiet emits_main_inference)
    simp_all

section \<open>One stage of the chain\<close>

lemma stage_result_Inr: "stage_result e cmd = Inr () \<Longrightarrow> \<exists>r. proc_result e cmd = Some r"
  by (simp add: stage_result_def split: option.splits)

lemma stage_outcome:
  "outcome (seq [ensure_dir e d, print intro,
      bind_p (subprocess_run e cmd) (\<lambda>r. report r a b)] s) =
     (case ensure_result e d s of Inl ex \<Rightarrow> Inl ex | Inr u \<Rightarrow> stage_result e cmd)"
  by (simp add: run_bind outcome_report stage_result_def split: option.splits sum.splits)

lemma stage_runs:
  "runs (events (seq [ensure_dir e d, print intro,
      bind_p (subprocess_run e cmd) (\<lambda>r. report r a b)] s)) =
     (if ensure_result e d s = Inr () then [cmd] else [])"
  using ensure_result_cases [of e d s]
  by (auto simp add: run_bind runs_append events_report split: option.splits)




lemma outcome_extract_frames:
  "outcome (extract_frames e args s) =
     (case ensure_result e frames_dir s of
        Inl ex \<Rightarrow> Inl ex | Inr u \<Rightarrow> stage_result e (ffmpeg_command args))"
  unfolding extract_frames_def by (rule stage_outcome)

lemma outcome_enhance_gfpgan:
  "outcome (enhance_gfpgan e s) =
     (case ensure_result e enhanced_frames_dir s of
        Inl ex \<Rightarrow> Inl ex | Inr u \<Rightarrow> stage_result e gfpgan_command)"
  unfolding enhance_gfpgan_def by (rule stage_outcome)

lemma outcome_refine_codeformer:
  "outcome (refine_codeformer e s) =
     (case ensure_result e final_frames_dir s of
        Inl ex \<Rightarrow> Inl ex | Inr u \<Rightarrow> stage_result e codeformer_command)"
  unfolding refine_codeformer_def by (rule stage_outcome)

lemma outcome_reassemble: "outcome (reassemble e s) = stage_result e ffmpeg_command2"
  unfolding reassemble_def
  by (simp add: run_bind outcome_report stage_result_def split: option.splits)

lemmas outcome_stage = outcome_extract_frames outcome_enhance_gfpgan outcome_refine_codeformer
  outcome_reassemble

lemma runs_extract_frames:
  "runs (events (extract_frames e args s)) =
     (if ensure_result e frames_dir s = Inr () then [ffmpeg_command args] else [])"
  unfolding extract_frames_def by (rule stage_runs)

lemma runs_enhance_gfpgan:
  "runs (events (enhance_gfpgan e s)) =
     (if ensure_result e enhanced_frames_dir s = Inr () then [gfpgan_command] else [])"
  unfolding enhance_gfpgan_def by (rule stage_runs)

lemma runs_refine_codeformer:
  "runs (events (refine_codeformer e s)) =
     (if ensure_result e final_frames_dir s = Inr () then [codeformer_command] else [])"
  unfolding refine_codeformer_def by (rule stage_runs)

lemma runs_reassemble: "runs (events (reassemble e s)) = [ffmpeg_command2]"
  unfolding reassemble_def
  by (simp add: run_bind runs_append events_report split: option.splits)

lemmas runs_stage = runs_extract_frames runs_enhance_gfpgan runs_refine_codeformer
  runs_reassemble
















section \<open>The chain as a whole\<close>

lemma runs_main_postprocess:
  "prefix (runs (events (main_postprocess e args s)))
     [ffmpeg_command args, gfpgan_command, codeformer_command, ffmpeg_command2]"
  unfolding main_postprocess_def
  by (simp add: events_bind runs_append runs_stage outcome_stage split: sum.splits)

lemma runs_main_postprocess_done:
  assumes "outcome (main_postprocess e args s) = Inr ()"
  shows "runs (events (main_postprocess e args s)) =
           [ffmpeg_command args, gfpgan_command, codeformer_command, ffmpeg_command2]"
  using assms unfolding main_postprocess_def
  by (simp add: events_bind outcome_bind runs_append runs_stage outcome_stage
      split: sum.splits)

lemma exits_are_runs: "blocking evs \<Longrightarrow> settled evs \<Longrightarrow> map fst (exits evs) = runs evs"
proof (induction evs rule: blocking.induct)
  case (3 c c' rc evs)
  then show ?case
    by (cases "evs = []") (auto simp add: settled_def)
qed (auto simp add: settled_def split: if_splits)





text \<open>
  A link that leads nowhere stays one while the file system only grows, and so does
  its absence.
\<close>

lemma grows_no_dangling:
  assumes "grows e D s s'" and "d \<in> D" and "\<not> dangling e s d"
  shows "\<not> dangling e s' d"
  using grows_dangling [OF assms(1,2)] assms(3) unfolding dangling_def by blast

lemma ensure_free:
  assumes "quiet e D" and "d \<in> D" and "\<not> dangling e s d"
    and "s d = None \<longrightarrow> \<not> makedirs_refused e d"
  shows "ensure_result e d s = Inr ()"
  using assms(3,4) by (auto simp add: ensure_result_quiet [OF assms(1,2)] dangling_def)

text \<open>
  The chain returns when no link that leads nowhere is in the way, the system lets the
  missing directories be made, and every process starts and leaves standard error that
  can be decoded.
\<close>

lemma chain_returns:
  assumes q: "quiet e (set frame_dirs)"
    and free: "\<forall>d\<in>set frame_dirs. \<not> dangling e s d \<and> (s d = None \<longrightarrow> \<not> makedirs_refused e d)"
    and procs: "\<And>cmd. stage_result e cmd = Inr ()"
  shows "outcome (main_postprocess e args s) = Inr ()"
proof -
  let ?D = "set frame_dirs"
  let ?I = "\<lambda>s. \<forall>d\<in>?D. \<not> dangling e s d \<and> (s d = None \<longrightarrow> \<not> makedirs_refused e d)"
  have keep: "?I s'" if "?I s" "grows e ?D s s'" for s s'
    using that grows_no_dangling [OF that(2)] grows_entry [OF that(2)] by blast
  have ensure: "ensure_result e d s = Inr ()" if "?I s" "d \<in> ?D" for s d
    using that ensure_free [OF q that(2), of s] by blast
  define s1 where "s1 = final_fs (extract_frames e args s)"
  define s2 where "s2 = final_fs (enhance_gfpgan e s1)"
  have 1: "?I s1"
    unfolding s1_def
    by (rule keep [OF free carefulD(1) [OF careful_extract_frames [OF q]]])
      (simp add: frame_dirs_def)
  have 2: "?I s2"
    unfolding s2_def
    by (rule keep [OF 1 carefulD(1) [OF careful_enhance_gfpgan [OF q]]])
      (simp add: frame_dirs_def)
  have "outcome (extract_frames e args s) = Inr ()"
    using ensure [OF free, of frames_dir]
    by (simp add: outcome_stage procs frame_dirs_def)
  moreover have "outcome (enhance_gfpgan e s1) = Inr ()"
    using ensure [OF 1, of enhanced_frames_dir]
    by (simp add: outcome_stage procs frame_dirs_def)
  moreover have "outcome (refine_codeformer e s2) = Inr ()"
    using ensure [OF 2, of final_frames_dir]
    by (simp add: outcome_stage procs frame_dirs_def)
  ultimately show ?thesis
    by (simp add: main_postprocess_def outcome_bind outcome_reassemble procs s1_def s2_def)
qed


section \<open>Model construction and the pipeline call\<close>

lemma whisper_main_inference:
  "whisper_paths (events (main_inference e config args s)) =
     (if lib_raises e (DDIMScheduler_from_pretrained ''configs'') then []
      else if cross_attention_dim (model config) = 768 then [''checkpoints/whisper/small.pt'']
      else if cross_attention_dim (model config) = 384 then [''checkpoints/whisper/tiny.pt'']
      else [])"
proof -
  define dt where
    "dt = (if cuda_is_available e \<and> 7 < fst (cuda_device_capability e) then Float16 else Float32)"
  show ?thesis
    unfolding main_inference_def Let_def dt_def[symmetric]
    by (simp add: events_bind outcome_bind case_sum_if if_app if_distrib[of events]
        if_distrib[of outcome] if_distrib[of whisper_paths] whisper_paths_append
        split del: if_split cong del: if_weak_cong)
qed

lemma seeding_main_inference:
  "prefix (seeding (events (main_inference e config args s)))
     [seeding_wanted args, Pipeline_invoked]"
proof -
  define dt where
    "dt = (if cuda_is_available e \<and> 7 < fst (cuda_device_capability e) then Float16 else Float32)"
  show ?thesis
    unfolding main_inference_def Let_def dt_def[symmetric]
    apply (simp add: events_bind outcome_bind case_sum_if if_app if_distrib[of events]
        if_distrib[of outcome] if_distrib[of seeding] seeding_append seeding_wanted_def
        split del: if_split cong del: if_weak_cong)
    apply (simp split: if_splits)
    done
qed

lemma seeding_main:
  "prefix (seeding (events (main e config args s))) [seeding_wanted args, Pipeline_invoked]"
proof -
  have "seeding (events (main_postprocess e args s')) = []" for s'
    by (rule seeding_emits) (rule emits_main_postprocess; simp)
  then show ?thesis
    using seeding_main_inference [of e config args s]
    by (simp add: main_def events_bind seeding_append split: sum.splits)
qed

lemma main_inference_returns:
  assumes "\<And>c. \<not> lib_raises e c"
    and "cross_attention_dim (model config) = 768 \<or> cross_attention_dim (model config) = 384"
  shows "outcome (main_inference e config args s) = Inr ()"
  using assms by (auto simp add: main_inference_def Let_def outcome_bind)

lemma runs_main_inference: "runs (events (main_inference e config args s)) = []"
proof -
  have "emits_only (\<lambda>ev. \<not> is_process_event ev) (main_inference e config args)"
    by (rule emits_main_inference) simp_all
  then show ?thesis
    by (simp add: emits_only_def runs_none)
qed


section \<open>The concrete runs\<close>

lemma example_lib_raises: "\<not> lib_raises example_env c"
  by (simp add: example_env_def)

lemma example_inference_outcome:
  "outcome (main_inference example_env (example_config 384) (example_args n) s) = Inr ()"
  by (rule main_inference_returns) (simp_all add: example_lib_raises example_config_def)

lemma example_inference_events:
  "events (main_inference example_env (example_config 384) (example_args n) s) =
     example_prefix n @ [Call (Pipeline_call example_kwargs)]"
  by (simp add: main_inference_def example_env_def example_config_def example_args_def
      example_prefix_def example_kwargs_def run_bind str_int_def)

lemma example_quiet: "quiet example_env D"
  by (simp add: quiet_def example_env_def)

lemma example_postprocess_outcome:
  assumes "\<forall>d\<in>set frame_dirs. \<not> dangling example_env s d"
  shows "outcome (main_postprocess example_env args s) = Inr ()"
  using assms by (intro chain_returns example_quiet) (simp_all add: stage_result_def example_env_def)

lemma example_outcome:
  "outcome (main example_env (example_config 384) (example_args n) Map.empty) = Inr ()"
proof -
  let ?s = "final_fs (main_inference example_env (example_config 384) (example_args n) Map.empty)"
  have "?s d = None" if "d \<in> set frame_dirs" for d
    using stableD [OF stable_main_inference [OF example_quiet] that, of "example_config 384"
        "example_args n" Map.empty]
    by simp
  then have "\<forall>d\<in>set frame_dirs. \<not> dangling example_env ?s d"
    by (simp add: dangling_def)
  then show ?thesis
    by (simp add: main_def outcome_bind example_inference_outcome example_postprocess_outcome)
qed

lemma example_events:
  "events (main example_env (example_config 384) (example_args n) s) =
     events (main_inference example_env (example_config 384) (example_args n) s) @
     events (main_postprocess example_env (example_args n)
       (final_fs (main_inference example_env (example_config 384) (example_args n) s)))"
  by (simp add: main_def events_bind example_inference_outcome)

section \<open>The claims\<close>

text \<open>
  C1. For every configuration whose \<^verbatim>\<open>model.cross_attention_dim\<close> is neither 768 nor
  384, \<^verbatim>\<open>main\<close> raises \<^verbatim>\<open>NotImplementedError\<close>, and raises it before any model
  loads. The check stands on lines 67 to 72, after the three prints and after the
  scheduler is read from \<^verbatim>\<open>configs\<close> on line 65; so the statement is about the runs in
  which that call returns. Then the run is exactly those four events and the error: the
  audio encoder, the VAE and the U-Net are never reached.
\<close>

theorem main_rejects_unsupported_dim:
  assumes "cross_attention_dim (model config) \<noteq> 768"
    and "cross_attention_dim (model config) \<noteq> 384"
    and "\<not> lib_raises e (DDIMScheduler_from_pretrained ''configs'')"
  shows "outcome (main e config args s) =
           Inl (NotImplementedError ''cross_attention_dim must be 768 or 384'')
       \<and> events (main e config args s) =
           [Print (''Input video path: '' @ video_path args),
            Print (''Input audio path: '' @ audio_path args),
            Print (''Loaded checkpoint path: '' @ inference_ckpt_path args),
            Call (DDIMScheduler_from_pretrained ''configs'')]
       \<and> (\<forall>ev \<in> set (events (main e config args s)). \<not> loads_model ev)"
proof -
  have "outcome (main e config args s) =
           Inl (NotImplementedError ''cross_attention_dim must be 768 or 384'')
       \<and> events (main e config args s) =
           [Print (''Input video path: '' @ video_path args),
            Print (''Input audio path: '' @ audio_path args),
            Print (''Loaded checkpoint path: '' @ inference_ckpt_path args),
            Call (DDIMScheduler_from_pretrained ''configs'')]"
    using assms by (simp add: main_def main_inference_def Let_def run_bind)
  then show ?thesis by simp
qed

theorem main_rejects_unsupported_dim_witness:
  "outcome (main example_env (example_config 512) (example_args 1247) Map.empty) =
     Inl (NotImplementedError ''cross_attention_dim must be 768 or 384'')
   \<and> events (main example_env (example_config 512) (example_args 1247) Map.empty) =
       [Print ''Input video path: in.mp4'', Print ''Input audio path: in.wav'',
        Print ''Loaded checkpoint path: ckpt.pt'',
        Call (DDIMScheduler_from_pretrained ''configs'')]"
  using main_rejects_unsupported_dim
    [of "example_config 512" example_env "example_args 1247" Map.empty]
  by (simp add: example_config_def example_env_def example_args_def)

text \<open>
  C3. For every configuration \<^verbatim>\<open>main\<close> accepts, the whisper checkpoint selected matches
  the configured dimension: 768 selects \<^verbatim>\<open>checkpoints/whisper/small.pt\<close> and 384 selects
  \<^verbatim>\<open>checkpoints/whisper/tiny.pt\<close>. In every run the audio encoder is built at most once,
  and the path it is given is the one of the dimension; it is built in every run that
  gets past the scheduler with an accepted dimension, and in no other.
\<close>

theorem whisper_checkpoint_matches_dim:
  "whisper_paths (events (main e config args s)) =
     (if lib_raises e (DDIMScheduler_from_pretrained ''configs'') then []
      else if cross_attention_dim (model config) = 768 then [''checkpoints/whisper/small.pt'']
      else if cross_attention_dim (model config) = 384 then [''checkpoints/whisper/tiny.pt'']
      else [])"
proof -
  have "whisper_paths (events (main_postprocess e args s')) = []" for s'
    by (rule whisper_paths_emits) (rule emits_main_postprocess; simp)
  then show ?thesis
    by (simp add: main_def events_bind whisper_paths_append whisper_main_inference
          split: sum.splits)
qed

theorem whisper_checkpoint_matches_dim_witness:
  "whisper_paths (events (main example_env (example_config 768) (example_args 1247) Map.empty))
     = [''checkpoints/whisper/small.pt'']
   \<and> whisper_paths (events (main example_env (example_config 384) (example_args 1247) Map.empty))
     = [''checkpoints/whisper/tiny.pt'']"
  using whisper_checkpoint_matches_dim
      [of example_env "example_config 768" "example_args 1247" Map.empty]
    whisper_checkpoint_matches_dim
      [of example_env "example_config 384" "example_args 1247" Map.empty]
  by (simp add: example_config_def example_lib_raises)

text \<open>
  C7. For every seed other than -1, \<^verbatim>\<open>main\<close> fixes the random seed to that value with
  \<^verbatim>\<open>set_seed\<close> before it invokes the pipeline; for -1 a random seed is used instead
  (\<^verbatim>\<open>torch.seed()\<close>). Wherever the pipeline call stands in the trace of a run, the
  events before it hold exactly one seeding call: \<^verbatim>\<open>set_seed(args.seed)\<close> when the seed
  is not -1, with no \<^verbatim>\<open>set_seed\<close> of another value and no \<^verbatim>\<open>torch.seed()\<close>, and
  \<^verbatim>\<open>torch.seed()\<close> with no \<^verbatim>\<open>set_seed\<close> at all when it is -1. No pipeline call
  stands before it either, so the seed is the one in force at the call.
\<close>

theorem seed_fixed_before_pipeline:
  assumes "events (main e config args s) = pre @ Call (Pipeline_call kw) # post"
  shows "seeding pre = [seeding_wanted args]
       \<and> (seed args \<noteq> - 1 \<longrightarrow>
            seeding pre = [Seeded (seed args)]
          \<and> Call (Set_seed (seed args)) \<in> set pre
          \<and> (\<forall>n. n \<noteq> seed args \<longrightarrow> Call (Set_seed n) \<notin> set pre)
          \<and> Call Torch_seed \<notin> set pre)
       \<and> (seed args = - 1 \<longrightarrow>
            seeding pre = [Random_seeded]
          \<and> Call Torch_seed \<in> set pre
          \<and> (\<forall>n. Call (Set_seed n) \<notin> set pre))
       \<and> (\<forall>kw'. Call (Pipeline_call kw') \<notin> set pre)"
proof -
  define x where "x = seeding_wanted args"
  have "prefix (seeding pre @ Pipeline_invoked # seeding post) [x, Pipeline_invoked]"
    using seeding_main [of e config args s] by (simp add: assms seeding_append x_def)
  moreover have not_call: "x \<noteq> Pipeline_invoked"
    by (simp add: x_def seeding_wanted_def)
  ultimately have pre: "seeding pre = [x]"
    by (cases "seeding pre") (auto simp: prefix_Cons append_eq_Cons_conv Cons_eq_append_conv)
  have in_pre: "y \<in> set (seeding pre) \<longleftrightarrow> y = x" for y
    by (simp add: pre)
  have a: "Call (Set_seed n) \<in> set pre \<longleftrightarrow> x = Seeded n" for n
    using in_pre [of "Seeded n"] by (auto simp: seeding_set seeding_of_Seeded)
  have b: "Call Torch_seed \<in> set pre \<longleftrightarrow> x = Random_seeded"
    using in_pre [of Random_seeded] by (auto simp: seeding_set seeding_of_Random)
  have c: "Call (Pipeline_call kw') \<notin> set pre" for kw'
    using in_pre [of Pipeline_invoked] not_call
    by (auto simp: seeding_set seeding_of_Pipeline)
  from pre show ?thesis
    by (auto simp add: a b c x_def seeding_wanted_def)
qed

theorem seed_fixed_before_pipeline_witness:
  "(\<exists>post. events (main example_env (example_config 384) (example_args 1247) Map.empty) =
        example_prefix 1247 @ Call (Pipeline_call example_kwargs) # post)
   \<and> seeding (example_prefix 1247) = [Seeded 1247]
   \<and> Call (Set_seed 1247) \<in> set (example_prefix 1247)
   \<and> Call Torch_seed \<notin> set (example_prefix 1247)
   \<and> (\<exists>post. events (main example_env (example_config 384) (example_args (- 1)) Map.empty) =
        example_prefix (- 1) @ Call (Pipeline_call example_kwargs) # post)
   \<and> seeding (example_prefix (- 1)) = [Random_seeded]
   \<and> Call Torch_seed \<in> set (example_prefix (- 1))"
proof -
  have split: "events (main example_env (example_config 384) (example_args n) Map.empty) =
      example_prefix n @ Call (Pipeline_call example_kwargs) #
        events (main_postprocess example_env (example_args n)
          (final_fs (main_inference example_env (example_config 384) (example_args n)
             Map.empty)))" for n
    by (simp add: example_events example_inference_events)
  from seed_fixed_before_pipeline [OF split [of 1247]]
  have "seeding (example_prefix 1247) = [Seeded 1247]
      \<and> Call (Set_seed 1247) \<in> set (example_prefix 1247)
      \<and> Call Torch_seed \<notin> set (example_prefix 1247)"
    by (simp add: example_args_def seeding_wanted_def)
  moreover from seed_fixed_before_pipeline [OF split [of "- 1"]]
  have "seeding (example_prefix (- 1)) = [Random_seeded]
      \<and> Call Torch_seed \<in> set (example_prefix (- 1))"
    by (simp add: example_args_def seeding_wanted_def)
  ultimately show ?thesis
    using split by blast
qed

text \<open>
  C10. In every run, the \<^verbatim>\<open>video_mask_path\<close> passed to the pipeline invocation is
  derived from \<^verbatim>\<open>--video_out_path\<close> by replacing the substring \<^verbatim>\<open>.mp4\<close> with
  \<^verbatim>\<open>_mask.mp4\<close>. Every pipeline call of a run carries the output path of the command
  line. That path is pieces free of \<^verbatim>\<open>.mp4\<close> with \<^verbatim>\<open>.mp4\<close> between them, and the
  mask path is the same pieces with \<^verbatim>\<open>_mask.mp4\<close> between them; this holds of every
  way to cut the output path into such pieces. (\<open>sublist xs ys\<close> says that \<open>xs\<close>
  occurs in \<open>ys\<close> as one contiguous part.)
\<close>

theorem mask_path_derived_from_out_path:
  assumes "Call (Pipeline_call kw) \<in> set (events (main e config args s))"
  shows "kw_video_out_path kw = video_out_path args
       \<and> (\<exists>ps. ps \<noteq> [] \<and> (\<forall>p\<in>set ps. \<not> sublist ''.mp4'' p)
              \<and> video_out_path args = str_join ''.mp4'' ps
              \<and> video_mask_path kw = str_join ''_mask.mp4'' ps)
       \<and> (\<forall>ps. ps \<noteq> [] \<and> (\<forall>p\<in>set ps. \<not> sublist ''.mp4'' p)
              \<and> video_out_path args = str_join ''.mp4'' ps \<longrightarrow>
              video_mask_path kw = str_join ''_mask.mp4'' ps)"
proof -
  let ?Q = "\<lambda>ev. \<forall>kw. ev = Call (Pipeline_call kw) \<longrightarrow>
    video_mask_path kw = str_replace ''.mp4'' ''_mask.mp4'' (video_out_path args)
    \<and> kw_video_out_path kw = video_out_path args"
  have "emits_only ?Q (main_inference e config args)"
    unfolding main_inference_def Let_def by (intro emits_rules) simp_all
  moreover have "emits_only ?Q (main_postprocess e args)"
    by (rule emits_main_postprocess) simp_all
  ultimately have "emits_only ?Q (main e config args)"
    unfolding main_def by (intro emits_rules)
  from emits_onlyD [OF this assms]
  have m: "video_mask_path kw = str_replace ''.mp4'' ''_mask.mp4'' (video_out_path args)"
    and o: "kw_video_out_path kw = video_out_path args"
    by simp_all
  have all: "video_mask_path kw = str_join ''_mask.mp4'' ps"
    if "ps \<noteq> []" "\<forall>p\<in>set ps. \<not> sublist ''.mp4'' p" "video_out_path args = str_join ''.mp4'' ps"
    for ps
    using that cut_at_mp4 [of ps "''_mask.mp4''"] by (simp add: m)
  obtain ps where "ps \<noteq> []" "\<forall>p\<in>set ps. \<not> sublist ''.mp4'' p"
      "video_out_path args = str_join ''.mp4'' ps"
    using pieces_exist [of "''.mp4''" "video_out_path args"] by auto
  with all [of ps] have "\<exists>ps. ps \<noteq> [] \<and> (\<forall>p\<in>set ps. \<not> sublist ''.mp4'' p)
      \<and> video_out_path args = str_join ''.mp4'' ps
      \<and> video_mask_path kw = str_join ''_mask.mp4'' ps"
    by blast
  with o all show ?thesis by blast
qed

theorem mask_path_derived_from_out_path_witness:
  "Call (Pipeline_call example_kwargs) \<in>
     set (events (main example_env (example_config 384) (example_args 1247) Map.empty))
   \<and> video_out_path (example_args 1247) = str_join ''.mp4'' [''out'', []]
   \<and> \<not> sublist ''.mp4'' ''out'' \<and> \<not> sublist ''.mp4'' []
   \<and> video_mask_path example_kwargs = ''out_mask.mp4''
   \<and> kw_video_out_path example_kwargs = ''out.mp4''"
proof -
  have in_run: "Call (Pipeline_call example_kwargs) \<in>
      set (events (main example_env (example_config 384) (example_args 1247) Map.empty))"
    by (simp add: example_events example_inference_events)
  have cut: "video_out_path (example_args 1247) = str_join ''.mp4'' [''out'', []]"
    by (simp add: example_args_def)
  have free: "\<not> sublist ''.mp4'' ''out''" "\<not> sublist ''.mp4'' []"
    by (simp_all add: sublist_Cons_right)
  from mask_path_derived_from_out_path [OF in_run] cut free
  have "video_mask_path example_kwargs = str_join ''_mask.mp4'' [''out'', []]
      \<and> kw_video_out_path example_kwargs = video_out_path (example_args 1247)"
    by (simp del: str_join.simps)
  then show ?thesis
    using in_run cut free by (simp add: example_args_def)
qed

text \<open>
  C4. In every run of \<^verbatim>\<open>main\<close> the four external processes are invoked in the fixed
  order frame extraction, GFPGAN enhancement, CodeFormer refinement, re-encoding, and
  each is run to completion before the next step begins. The command lines a run starts
  are an initial part of that list of four, and all four when \<^verbatim>\<open>main\<close> returns; the
  trace is blocking, so nothing happens between the start of a process and its exit; and
  when \<^verbatim>\<open>main\<close> returns, the four have exited, in that order.
\<close>

theorem postprocess_in_order_and_blocking:
  "prefix (runs (events (main e config args s)))
     [ffmpeg_command args, gfpgan_command, codeformer_command, ffmpeg_command2]
   \<and> blocking (events (main e config args s))
   \<and> (outcome (main e config args s) = Inr () \<longrightarrow>
        runs (events (main e config args s)) =
          [ffmpeg_command args, gfpgan_command, codeformer_command, ffmpeg_command2]
        \<and> map fst (exits (events (main e config args s))) =
          [ffmpeg_command args, gfpgan_command, codeformer_command, ffmpeg_command2])"
proof -
  have silent: "emits_only (\<lambda>ev. \<not> is_process_event ev) (main_inference e config args)"
    by (rule emits_main_inference) simp_all
  have r: "runs (events (main_inference e config args s)) = []"
    using silent by (simp add: emits_only_def runs_none)
  have x: "exits (events (main_inference e config args s)) = []"
    using silent by (simp add: emits_only_def exits_none)
  have "blocking (events (main e config args s))"
    using tidy_main [of e config args] by (simp add: tidy_def)
  moreover have "prefix (runs (events (main e config args s)))
     [ffmpeg_command args, gfpgan_command, codeformer_command, ffmpeg_command2]"
    using runs_main_postprocess
    by (simp add: main_def events_bind runs_append r split: sum.splits)
  moreover have "runs (events (main e config args s)) =
          [ffmpeg_command args, gfpgan_command, codeformer_command, ffmpeg_command2]
        \<and> map fst (exits (events (main e config args s))) =
          [ffmpeg_command args, gfpgan_command, codeformer_command, ffmpeg_command2]"
    if ok: "outcome (main e config args s) = Inr ()"
  proof -
    have all: "runs (events (main e config args s)) =
        [ffmpeg_command args, gfpgan_command, codeformer_command, ffmpeg_command2]"
      using ok runs_main_postprocess_done
      by (simp add: main_def events_bind outcome_bind runs_append r split: sum.splits)
    from tidy_main [of e config args]
    have "blocking (events (main e config args s))
        \<and> (isl (outcome (main e config args s)) \<or> settled (events (main e config args s)))"
      by (simp add: tidy_def)
    with ok have "blocking (events (main e config args s))"
      and "settled (events (main e config args s))"
      by simp_all
    from exits_are_runs [OF this] all show ?thesis by simp
  qed
  ultimately show ?thesis by blast
qed

theorem postprocess_in_order_and_blocking_witness:
  "outcome (main example_env (example_config 384) (example_args 1247) Map.empty) = Inr ()
   \<and> runs (events (main example_env (example_config 384) (example_args 1247) Map.empty)) =
       [[''ffmpeg'', ''-i'', ''out.mp4'', ''temp_frames/frame_%04d.png''],
        [''python'', ''-m'', ''gfpgan'', ''--input-path'', ''temp_frames'',
         ''--output-path'', ''enhanced_frames'', ''--version'', ''1.3''],
        [''python'', ''CodeFormer/inference_codeformer.py'', ''--input_path'',
         ''enhanced_frames'', ''--output_path'', ''final_frames'', ''--face_upsample''],
        [''ffmpeg'', ''-r'', ''25'', ''-i'', ''final_frames/frame_%04d.png'', ''-vcodec'',
         ''libx264'', ''-crf'', ''18'', ''-pix_fmt'', ''yuv420p'', ''final_video.mp4'']]
   \<and> blocking (events (main example_env (example_config 384) (example_args 1247) Map.empty))"
  using postprocess_in_order_and_blocking
      [of example_env "example_config 384" "example_args 1247" Map.empty]
    example_outcome [of 1247]
  by (simp add: ffmpeg_command_def gfpgan_command_def codeformer_command_def
      ffmpeg_command2_def os_path_join_def frames_dir_def enhanced_frames_dir_def
      final_frames_dir_def final_video_path_def example_args_def)




section \<open>The bootstrap\<close>

lemma runs_check_call: "runs (events (subprocess_check_call e cmd s)) = [cmd]"
  by (simp split: option.splits)

lemma bootstrap_runs_imported:
  assumes "import_gfpgan e = Imported"
  shows "runs (events (bootstrap e s)) =
     (if \<not> path_exists e s ''CodeFormer''
      then git_clone_command #
        (if exits_zero e git_clone_command then [pip_requirements_command e] else [])
      else [])"
  unfolding bootstrap_def install_package_eq
  by (simp add: assms events_bind outcome_bind final_fs_bind runs_append runs_check_call if_app
      exits_zero_def del: run_check_call(2) split: option.splits)

lemma bootstrap_runs_import_error:
  assumes "import_gfpgan e = Raises_ImportError"
  shows "runs (events (bootstrap e s)) =
     pip_install_command e ''gfpgan'' #
     (if exits_zero e (pip_install_command e ''gfpgan'')
         \<and> \<not> path_exists e (fs_effect e (Proc (pip_install_command e ''gfpgan'')) s)
               ''CodeFormer''
      then git_clone_command #
        (if exits_zero e git_clone_command then [pip_requirements_command e] else [])
      else [])"
  unfolding bootstrap_def install_package_eq
  by (simp add: assms events_bind outcome_bind final_fs_bind runs_append runs_check_call if_app
      exits_zero_def del: run_check_call(2) split: option.splits)

lemma bootstrap_nothing_to_do:
  assumes "import_gfpgan e = Imported" and "path_exists e s ''CodeFormer''"
  shows "events (bootstrap e s) = [Import ''gfpgan''] \<and> outcome (bootstrap e s) = Inr ()"
  using assms by (simp add: bootstrap_def events_bind outcome_bind)

lemma strict_no_exit: "emits_only (\<lambda>ev. \<forall>cmd rc. ev \<noteq> Exit cmd rc) m \<Longrightarrow> strict m"
  by (auto simp: strict_def dest: emits_onlyD)

lemma strict_check_call: "strict (subprocess_check_call e cmd)"
  by (auto simp: strict_def split: option.splits)

lemma strict_bind:
  assumes "strict m" and "\<And>x. strict (f x)"
  shows "strict (bind_p m f)"
  unfolding strict_def
proof (intro allI impI, elim conjE)
  fix s cmd rc
  assume ex: "Exit cmd rc \<in> set (events (bind_p m f s))" and rc: "rc \<noteq> (0::int)"
  show "outcome (bind_p m f s) = Inl (CalledProcessError rc cmd)
      \<and> last (events (bind_p m f s)) = Exit cmd rc"
  proof (cases "outcome (m s)")
    case (Inl err)
    with ex rc assms(1) show ?thesis
      by (simp add: strict_def events_bind outcome_bind)
  next
    case (Inr x)
    have "Exit cmd rc \<notin> set (events (m s))"
      using assms(1) Inr rc by (auto simp: strict_def)
    with ex Inr have in_f: "Exit cmd rc \<in> set (events (f x (final_fs (m s))))"
      by (simp add: events_bind)
    with assms(2) [of x] rc
    have "outcome (f x (final_fs (m s))) = Inl (CalledProcessError rc cmd)"
      and "last (events (f x (final_fs (m s)))) = Exit cmd rc"
      by (auto simp: strict_def)
    moreover from in_f have "events (f x (final_fs (m s))) \<noteq> []"
      by auto
    ultimately show ?thesis
      using Inr by (simp add: events_bind outcome_bind)
  qed
qed

lemma strict_seq_Nil: "strict (seq [])"
  by (simp add: strict_def)

lemma strict_seq_Cons: "strict m \<Longrightarrow> strict (seq ms) \<Longrightarrow> strict (seq (m # ms))"
  by (simp add: strict_bind)

lemma strict_if: "strict a \<Longrightarrow> strict b \<Longrightarrow> strict (if c then a else b)"
  by simp

lemma strict_import:
  "strict a \<Longrightarrow> strict b \<Longrightarrow> strict c \<Longrightarrow>
     strict (case r of Imported \<Rightarrow> a | Raises_ImportError \<Rightarrow> b | Raises_other \<Rightarrow> c)"
  by (cases r) simp_all

lemma strict_silent:
  "strict (print t)" "strict (succeed x)" "strict (raise ex)" "strict (os_path_exists e p)"
  by (simp_all add: strict_def)

lemma strict_emit: "(\<And>cmd rc. ev \<noteq> Exit cmd rc) \<Longrightarrow> strict (emit ev)"
  by (rule strict_no_exit) (simp add: emits_emit)

lemma strict_bootstrap: "strict (bootstrap e)"
  unfolding bootstrap_def install_package_eq
  by (intro strict_seq_Cons strict_seq_Nil strict_bind strict_if strict_import strict_silent
      strict_emit strict_check_call) simp

lemma exits_of_bootstrap:
  "emits_only (\<lambda>ev. \<forall>cmd rc. ev = Exit cmd rc \<longrightarrow>
      cmd \<in> {pip_install_command e ''gfpgan'', git_clone_command, pip_requirements_command e})
     (bootstrap e)"
  unfolding bootstrap_def install_package_eq
  by (intro emits_rules) simp_all

text \<open>
  C8. When the script is loaded: if \<^verbatim>\<open>gfpgan\<close> cannot be imported it is installed with
  pip; if the \<^verbatim>\<open>CodeFormer\<close> directory does not exist the repository is cloned with git
  and its requirements installed with pip; when both are present no install or clone is
  started. The four parts below are: an \<^verbatim>\<open>ImportError\<close> makes \<^verbatim>\<open>pip install gfpgan\<close>
  the first process started; with the package importable and \<^verbatim>\<open>CodeFormer\<close> not
  existing, the processes started are the clone and, once it has exited with 0, the
  install of the requirements; the same follows a pip install that exited with 0 and
  left \<^verbatim>\<open>CodeFormer\<close> not existing; and with both present the bootstrap only imports,
  and returns. A path exists as \<^verbatim>\<open>os.path.exists\<close> says.
\<close>

theorem bootstrap_installs_on_demand:
  "(import_gfpgan e = Raises_ImportError \<longrightarrow>
      prefix [pip_install_command e ''gfpgan''] (runs (events (bootstrap e s))))
   \<and> (import_gfpgan e = Imported \<and> \<not> path_exists e s ''CodeFormer'' \<longrightarrow>
        runs (events (bootstrap e s)) =
          git_clone_command #
            (if exits_zero e git_clone_command then [pip_requirements_command e] else []))
   \<and> (import_gfpgan e = Raises_ImportError \<and> exits_zero e (pip_install_command e ''gfpgan'')
        \<and> \<not> path_exists e (fs_effect e (Proc (pip_install_command e ''gfpgan'')) s)
              ''CodeFormer'' \<longrightarrow>
        runs (events (bootstrap e s)) =
          pip_install_command e ''gfpgan'' # git_clone_command #
            (if exits_zero e git_clone_command then [pip_requirements_command e] else []))
   \<and> (import_gfpgan e = Imported \<and> path_exists e s ''CodeFormer'' \<longrightarrow>
        events (bootstrap e s) = [Import ''gfpgan''] \<and> outcome (bootstrap e s) = Inr ())"
  using bootstrap_nothing_to_do [of e s]
  by (simp add: bootstrap_runs_imported bootstrap_runs_import_error)

theorem bootstrap_installs_on_demand_witness:
  "runs (events (bootstrap example_env Map.empty)) =
     [[''git'', ''clone'', ''https://github.com/sczhou/CodeFormer.git''],
      [''python3'', ''-m'', ''pip'', ''install'', ''-r'', ''CodeFormer/requirements.txt'']]
   \<and> runs (events (bootstrap (example_env\<lparr>import_gfpgan := Raises_ImportError\<rparr>) Map.empty)) =
     [[''python3'', ''-m'', ''pip'', ''install'', ''gfpgan''],
      [''git'', ''clone'', ''https://github.com/sczhou/CodeFormer.git''],
      [''python3'', ''-m'', ''pip'', ''install'', ''-r'', ''CodeFormer/requirements.txt'']]
   \<and> events (bootstrap example_env [''CodeFormer'' \<mapsto> Dir]) = [Import ''gfpgan'']
   \<and> runs (events (bootstrap example_env [''CodeFormer'' \<mapsto> Symlink ''gone''])) =
     [[''git'', ''clone'', ''https://github.com/sczhou/CodeFormer.git''],
      [''python3'', ''-m'', ''pip'', ''install'', ''-r'', ''CodeFormer/requirements.txt'']]"
  using bootstrap_installs_on_demand [of example_env Map.empty]
    bootstrap_installs_on_demand [of "example_env\<lparr>import_gfpgan := Raises_ImportError\<rparr>" Map.empty]
    bootstrap_installs_on_demand [of example_env "[''CodeFormer'' \<mapsto> Dir]"]
    bootstrap_installs_on_demand [of example_env "[''CodeFormer'' \<mapsto> Symlink ''gone'']"]
  by (simp add: example_env_def exits_zero_def pip_install_command_def git_clone_command_def
      pip_requirements_command_def not_exists_None exists_Dir not_exists_nowhere)

text \<open>
  C9. Unlike a stage of the post-processing chain, a bootstrap command that exits with a
  non-zero code (the pip install of \<^verbatim>\<open>gfpgan\<close>, the clone of CodeFormer, the pip
  install of its requirements) raises, through \<^verbatim>\<open>check_call\<close>, and the script ends
  before \<^verbatim>\<open>main\<close> runs: the script's outcome is the \<^verbatim>\<open>CalledProcessError\<close> of that
  command, that exit is the last event of the script, and the script has done nothing
  but the bootstrap.
\<close>

theorem bootstrap_failure_aborts_script:
  assumes "Exit cmd rc \<in> set (events (bootstrap e s))" and "rc \<noteq> 0"
  shows "outcome (script e argv s) = Inl (CalledProcessError rc cmd)
       \<and> events (script e argv s) = events (bootstrap e s)
       \<and> last (events (script e argv s)) = Exit cmd rc
       \<and> cmd \<in> {pip_install_command e ''gfpgan'', git_clone_command, pip_requirements_command e}"
proof -
  from strict_bootstrap [of e] assms
  have "outcome (bootstrap e s) = Inl (CalledProcessError rc cmd)"
    and "last (events (bootstrap e s)) = Exit cmd rc"
    by (auto simp: strict_def)
  moreover from emits_onlyD [OF exits_of_bootstrap assms(1)]
  have "cmd \<in> {pip_install_command e ''gfpgan'', git_clone_command, pip_requirements_command e}"
    by simp
  ultimately show ?thesis
    by (simp add: script_def events_bind outcome_bind)
qed

theorem bootstrap_failure_aborts_script_witness:
  "Exit git_clone_command 128 \<in> set (events (bootstrap failing_clone_env Map.empty))
   \<and> outcome (script failing_clone_env example_argv Map.empty) =
       Inl (CalledProcessError 128 git_clone_command)
   \<and> events (script failing_clone_env example_argv Map.empty) =
       [Import ''gfpgan'', Print ''CodeFormer repository not found. Cloning...'',
        Run git_clone_command, Exit git_clone_command 128]"
proof -
  have ev: "events (bootstrap failing_clone_env Map.empty) =
      [Import ''gfpgan'', Print ''CodeFormer repository not found. Cloning...'',
       Run git_clone_command, Exit git_clone_command 128]"
    by (simp add: bootstrap_def events_bind outcome_bind failing_clone_env_def example_env_def
        not_exists_None)
  then have "Exit git_clone_command 128 \<in> set (events (bootstrap failing_clone_env Map.empty))"
    by simp
  from this bootstrap_failure_aborts_script [OF this, of example_argv] ev
  show ?thesis by simp
qed

section \<open>The command line\<close>































section \<open>A stage that fails\<close>

text \<open>
  A stage whose process exits with a non-zero code and well-formed standard error
  prints both and returns; the chain goes on.
\<close>

lemma nonzero_exit_is_reported:
  assumes "returncode r \<noteq> 0" and "utf8_ok (map of_char (stderr r))"
  shows "outcome (report r a b s) = Inr () \<and> events (report r a b s) = [Print b, Print (stderr r)]"
  using assms by (simp add: outcome_report events_report)

lemma chain_survives_decodable_failures:
  assumes "\<And>cmd. \<exists>r. proc_result e cmd = Some r \<and> utf8_ok (map of_char (stderr r))"
    and "quiet e (set frame_dirs)"
    and "\<forall>d\<in>set frame_dirs. \<not> dangling e s d \<and> (s d = None \<longrightarrow> \<not> makedirs_refused e d)"
  shows "outcome (main_postprocess e args s) = Inr ()"
proof -
  have "stage_result e cmd = Inr ()" for cmd
    using assms(1) [of cmd] by (auto simp: stage_result_def)
  with assms(2,3) show ?thesis
    by (intro chain_returns)
qed

text \<open>
  Standard error that is not well-formed UTF-8 makes the decoding on line 141 raise:
  the run ends there, with one process started.
\<close>

lemma undecodable_stderr_is_fatal:
  assumes "outcome (main_inference e config args s) = Inr ()"
    and "ensure_result e frames_dir (final_fs (main_inference e config args s)) = Inr ()"
    and "proc_result e (ffmpeg_command args) = Some r"
    and "returncode r \<noteq> 0" and "\<not> utf8_ok (map of_char (stderr r))"
  shows "outcome (main e config args s) = Inl UnicodeDecodeError
       \<and> runs (events (main e config args s)) = [ffmpeg_command args]"
proof -
  have "stage_result e (ffmpeg_command args) = Inl UnicodeDecodeError"
    using assms(3-5) by (simp add: stage_result_def)
  then show ?thesis
    using assms(1,2)
    by (simp add: main_def main_postprocess_def outcome_bind events_bind runs_append
        runs_main_inference outcome_stage runs_stage)
qed

text \<open>
  C2. In every run of the four post-processing stages, a non-zero exit code of a stage
  makes the script print the captured standard error and go on to the next stage; no
  stage failure stops the remaining stages or propagates an error. The run below does
  not: frame extraction exits with 1 and leaves the single byte 0xFF on standard error,
  the strict decoding of it raises \<^verbatim>\<open>UnicodeDecodeError\<close> out of \<^verbatim>\<open>main\<close>, and the
  other three stages are never started. The trace of the run ends with the heading of
  the error report: the standard error is not printed either.
\<close>

theorem undecodable_stderr_stops_the_chain:
  "proc_result undecodable_env (ffmpeg_command (example_args 1247)) =
     Some \<lparr>returncode = 1, stderr = [CHR 0xFF]\<rparr>
   \<and> outcome (main undecodable_env (example_config 384) (example_args 1247) Map.empty) =
       Inl UnicodeDecodeError
   \<and> runs (events (main undecodable_env (example_config 384) (example_args 1247) Map.empty)) =
       [ffmpeg_command (example_args 1247)]
   \<and> events (main undecodable_env (example_config 384) (example_args 1247) Map.empty) =
       example_prefix 1247 @
       [Call (Pipeline_call example_kwargs), Makedirs ''temp_frames'',
        Print ''Extracting frames from the generated video...'',
        Run (ffmpeg_command (example_args 1247)),
        Exit (ffmpeg_command (example_args 1247)) 1,
        Print ''Error during frame extraction:'']"
proof -
  let ?s = "final_fs (main_inference undecodable_env (example_config 384) (example_args 1247)
      Map.empty)"
  have p: "proc_result undecodable_env (ffmpeg_command (example_args 1247)) =
      Some \<lparr>returncode = 1, stderr = [CHR 0xFF]\<rparr>"
    by (simp add: undecodable_env_def)
  have o: "outcome (main_inference undecodable_env (example_config 384) (example_args 1247)
      Map.empty) = Inr ()"
    by (rule main_inference_returns)
      (simp_all add: undecodable_env_def example_env_def example_config_def)
  have i: "events (main_inference undecodable_env (example_config 384) (example_args 1247)
      Map.empty) = example_prefix 1247 @ [Call (Pipeline_call example_kwargs)]"
    by (simp add: main_inference_def undecodable_env_def example_env_def example_config_def
      example_args_def example_prefix_def example_kwargs_def run_bind str_int_def)
  have q: "quiet undecodable_env {frames_dir}"
    by (simp add: quiet_def undecodable_env_def example_env_def)
  have f: "?s frames_dir = None"
    using stableD [OF stable_main_inference [OF q], of frames_dir "example_config 384"
        "example_args 1247" Map.empty]
    by simp
  have en: "ensure_result undecodable_env frames_dir s = Inr ()"
    and mk: "made undecodable_env frames_dir s" if "s frames_dir = None" for s
    using that
    by (simp_all add: ensure_result_def made_def not_exists_None undecodable_env_def
        example_env_def)
  have x: "events (extract_frames undecodable_env (example_args 1247) s) =
      [Makedirs ''temp_frames'', Print ''Extracting frames from the generated video...'',
       Run (ffmpeg_command (example_args 1247)), Exit (ffmpeg_command (example_args 1247)) 1,
       Print ''Error during frame extraction:'']" if "s frames_dir = None" for s
    using en [where s = s, OF that] mk [where s = s, OF that]
    by (simp add: extract_frames_def events_bind outcome_bind p events_report)
      (simp add: frames_dir_def)
  have "outcome (extract_frames undecodable_env (example_args 1247) ?s) =
      Inl UnicodeDecodeError"
    by (simp add: outcome_extract_frames stage_result_def p en [where s = ?s, OF f])
  moreover note x [where s = ?s, OF f]
  ultimately have "events (main undecodable_env (example_config 384) (example_args 1247)
      Map.empty) = example_prefix 1247 @
       [Call (Pipeline_call example_kwargs), Makedirs ''temp_frames'',
        Print ''Extracting frames from the generated video...'',
        Run (ffmpeg_command (example_args 1247)),
        Exit (ffmpeg_command (example_args 1247)) 1,
        Print ''Error during frame extraction:'']"
    by (simp add: main_def main_postprocess_def events_bind outcome_bind i o)
  with undecodable_stderr_is_fatal [OF o en [where s = ?s, OF f] p] p show ?thesis
    by simp
qed

end
